theory Spec2Isabelle
  imports Complex_Main "HOL-Library.Word"
begin

unbundle bit_operations_syntax

section \<open>Machine types\<close>

type_synonym u8 = "8 word"
type_synonym u16 = "16 word"
type_synonym u32 = "32 word"
type_synonym u64 = "64 word"

section \<open>ReadoutUtils: byte sizes from configuration strings\<close>

text \<open>
  \<^verbatim>\<open>ReadoutUtils::getNumberOfBytesFromString\<close> calls the C library's
  \<^verbatim>\<open>sscanf(inputString, "%lf%c", &v, &c)\<close> and dispatches on the number \<open>n\<close> of
  converted items and on the suffix character. The library call is a parameter \<open>scan\<close>
  of the model: it gives \<open>n\<close> (\<open>-1\<close> or \<open>0\<close> when no number was read, \<open>1\<close> for a bare
  number, \<open>2\<close> for a number and a following character), the value \<open>v\<close> and the
  character \<open>c\<close>. A finite \<^verbatim>\<open>double\<close> is a real number; the products by \<open>1024LL\<close>
  are products by powers of two.

  The cast \<^verbatim>\<open>(long long)x\<close> truncates towards zero. The C standard leaves it undefined
  when the truncated value does not fit 64 bits: that case is \<open>None\<close>.
\<close>

definition long_long_of_double :: "real \<Rightarrow> int option" where
  "long_long_of_double x =
     (let t = (if 0 \<le> x then \<lfloor>x\<rfloor> else \<lceil>x\<rceil>)
      in if - (2 ^ 63) \<le> t \<and> t < 2 ^ 63 then Some t else None)"

definition getNumberOfBytesFromString :: "(string \<Rightarrow> int \<times> real \<times> char) \<Rightarrow> string \<Rightarrow> int option" where
  "getNumberOfBytesFromString scan inputString =
     (case scan inputString of (n, v, c) \<Rightarrow>
        if n = 1 then long_long_of_double v
        else if n = 2 \<and> c = CHR ''k'' then long_long_of_double (v * 1024)
        else if n = 2 \<and> c = CHR ''M'' then long_long_of_double (v * 1024 * 1024)
        else if n = 2 \<and> c = CHR ''G'' then long_long_of_double (v * 1024 * 1024 * 1024)
        else if n = 2 \<and> c = CHR ''T'' then long_long_of_double (v * 1024 * 1024 * 1024 * 1024)
        else if n = 2 \<and> c = CHR ''P'' then
          long_long_of_double (v * 1024 * 1024 * 1024 * 1024 * 1024)
        else Some 0)"

text \<open>The table of suffixes as the specification words it: the exponent of 1024.\<close>

definition spec_suffix_exponent :: "char \<Rightarrow> nat option" where
  "spec_suffix_exponent c =
     (if c = CHR ''k'' then Some 1
      else if c = CHR ''M'' then Some 2
      else if c = CHR ''G'' then Some 3
      else if c = CHR ''T'' then Some 4
      else if c = CHR ''P'' then Some 5
      else None)"


section \<open>Page accounting in the user space of a page\<close>

text \<open>
  \<^verbatim>\<open>struct DataBlockFMQStats\<close>, stored in \<^verbatim>\<open>DataBlock.header.userSpace\<close>.
  \<^verbatim>\<open>countRef\<close> is a \<^verbatim>\<open>std::atomic<int>\<close>: its increments wrap around.
\<close>

record DataBlockFMQStats =
  magic :: u8
  countRef :: "32 word"
  t0 :: u64
  dataSizeAccounted :: u64
  memorySizeAccounted :: u64

text \<open>The counters of \<^verbatim>\<open>gReadoutStats.counters\<close> that the consumer touches.\<close>

record ReadoutStatsCounters =
  pagesPendingFairMQ :: u64
  pagesPendingFairMQreleased :: u64
  pagesPendingFairMQtime :: u64
  ddPayloadPendingBytes :: u64
  ddMemoryPendingBytes :: u64
  ddHBFRepacked :: u64
  ddBytesCopied :: u64
  bytesFairMQ :: u64
  timeframeIdFairMQ :: u64
  notify :: u64

definition initDataBlockStats :: "DataBlockFMQStats \<Rightarrow> u64 \<Rightarrow> DataBlockFMQStats" where
  "initDataBlockStats s v_memorySizeAccounted =
     s\<lparr>magic := 0xAA, countRef := 0, dataSizeAccounted := 0,
       memorySizeAccounted := v_memorySizeAccounted\<rparr>"

text \<open>\<open>now\<close> is the value of \<^verbatim>\<open>timeNowMicrosec()\<close> at the call.\<close>

definition incDataBlockStats ::
  "u64 \<Rightarrow> u64 \<Rightarrow> DataBlockFMQStats \<times> ReadoutStatsCounters \<Rightarrow> DataBlockFMQStats \<times> ReadoutStatsCounters" where
  "incDataBlockStats now v_dataSizeAccounted sg =
     (case sg of (s, g) \<Rightarrow>
        if magic s \<noteq> 0xAA then (s, g)
        else
          let first = (countRef s = 0);
              s1 = s\<lparr>countRef := countRef s + 1\<rparr>;
              s2 = (if first then s1\<lparr>t0 := now\<rparr> else s1);
              g2 = (if first
                    then g\<lparr>pagesPendingFairMQ := pagesPendingFairMQ g + 1,
                           notify := notify g + 1,
                           ddMemoryPendingBytes := ddMemoryPendingBytes g + memorySizeAccounted s\<rparr>
                    else g)
          in (s2\<lparr>dataSizeAccounted := dataSizeAccounted s2 + v_dataSizeAccounted\<rparr>,
              g2\<lparr>ddPayloadPendingBytes := ddPayloadPendingBytes g2 + v_dataSizeAccounted\<rparr>))"

definition decDataBlockStats ::
  "u64 \<Rightarrow> DataBlockFMQStats \<times> ReadoutStatsCounters \<Rightarrow> DataBlockFMQStats \<times> ReadoutStatsCounters" where
  "decDataBlockStats now sg =
     (case sg of (s, g) \<Rightarrow>
        if magic s \<noteq> 0xAA then (s, g)
        else
          let s1 = s\<lparr>countRef := countRef s - 1\<rparr>
          in if countRef s1 = 0
             then (s1\<lparr>magic := 0x00\<rparr>,
                   g\<lparr>pagesPendingFairMQ := pagesPendingFairMQ g - 1,
                     pagesPendingFairMQreleased := pagesPendingFairMQreleased g + 1,
                     pagesPendingFairMQtime := pagesPendingFairMQtime g + (now - t0 s),
                     ddPayloadPendingBytes := ddPayloadPendingBytes g - dataSizeAccounted s,
                     ddMemoryPendingBytes := ddMemoryPendingBytes g - memorySizeAccounted s,
                     notify := notify g + 1\<rparr>)
             else (s1, g))"


section \<open>Data blocks and raw data headers\<close>

text \<open>
  A run-time failure of the C++ that is not a return value: a division by zero, a
  conversion, a dereference, a copy or an element access that the language leaves
  undefined.
\<close>

datatype fault = DivisionByZero | UndefinedConversion | NullPointer | BufferOverrun | OutOfRange

text \<open>
  Modelled from the spec: the header \<^verbatim>\<open>DataBlock.h\<close> (struct \<^verbatim>\<open>DataBlockHeader\<close>, struct
  \<^verbatim>\<open>DataBlock\<close> and the \<^verbatim>\<open>undefined...\<close> sentinels) is not among the sources. The fields
  are those of section 3 of the specification; \<open>userSpace\<close> holds the accounting struct
  that the consumer stores there; \<open>data\<close> is the payload pointer, \<open>None\<close> for
  \<^verbatim>\<open>nullptr\<close>, and otherwise the bytes of the page from the payload's first byte on.
\<close>

record DataBlockHeader =
  blockId :: u64
  dataSize :: u32
  headerSize :: u32
  memorySize :: u32
  equipmentId :: u16
  linkId :: u8
  feeId :: u16
  systemId :: u8
  timeframeId :: u64
  timeframeOrbitFirst :: u32
  timeframeOrbitLast :: u32
  runNumber :: u64
  flagEndOfTimeframe :: bool
  isRdhFormat :: bool
  userSpace :: DataBlockFMQStats

record DataBlock =
  header :: DataBlockHeader
  data :: "u8 list option"

definition undefinedTimeframeId :: u64 where "undefinedTimeframeId = 0"
definition undefinedEquipmentId :: u16 where "undefinedEquipmentId = 0xFFFF"
definition undefinedLinkId :: u8 where "undefinedLinkId = 0xFF"
definition undefinedSystemId :: u8 where "undefinedSystemId = 0xFF"
definition undefinedFeeId :: u16 where "undefinedFeeId = 0xFFFF"
definition undefinedOrbit :: u32 where "undefinedOrbit = 0"

text \<open>
  Modelled from the spec: the raw data header (\<^verbatim>\<open>RAWDataHeader.h\<close>, \<^verbatim>\<open>RdhUtils.h\<close>) is not
  among the sources. An \<open>RdhHandle\<close> holds the fields that section 6 of the
  specification lists, as the getters of the handle give them, and \<open>rdh_valid\<close> for
  \<^verbatim>\<open>validateRdh(...) == 0\<close>. How the fields lie in the bytes is hardware-defined: the
  decoding of the bytes at an offset of a payload is a parameter \<open>decode\<close> of every
  function that reads a header.
\<close>

record RdhHandle =
  rdh_valid :: bool
  rdh_hbOrbit :: u32
  rdh_triggerOrbit :: u32
  rdh_linkId :: u8
  rdh_systemId :: u8
  rdh_feeId :: u16
  rdh_cruId :: u16
  rdh_endPointId :: u8
  rdh_offsetNextPacket :: u16

type_synonym rdh_decoder = "u8 list \<Rightarrow> nat \<Rightarrow> RdhHandle"

section \<open>ReadoutEquipment\<close>

text \<open>
  The members of \<^verbatim>\<open>class ReadoutEquipment\<close> that the readout loop and the RDH
  processing read and write. The header \<^verbatim>\<open>ReadoutEquipment.h\<close> is not among the
  sources: orbits and the timeframe period are 32-bit unsigned as the parameter
  \<^verbatim>\<open>uint32_t hbOrbit\<close>, counters are 64-bit unsigned. \<open>equipment_id\<close> is the member
  \<^verbatim>\<open>id\<close>; \<open>bytesReadout\<close> is \<^verbatim>\<open>gReadoutStats.counters.bytesReadout\<close>; \<open>dataOut\<close> is the
  output FIFO, oldest page first, of capacity \<open>outputFifoSize\<close>. The members that only
  feed log messages (dump switches, console statistics, \<^verbatim>\<open>debugFirstPages\<close>, the pool
  and FIFO occupancy gauges) are left out.
\<close>

record EquipmentStats =
  nLoop :: u64
  nThrottle :: u64
  nBlocksOut :: u64
  nOutputFull :: u64
  nBytesOut :: u64
  nIdle :: u64

record ReadoutEquipment =
  equipment_id :: u16
  readoutRate :: real
  disableOutput :: bool
  cfgRdhCheckEnabled :: bool
  cfgRdhUseFirstInPageEnabled :: bool
  timeframePeriodOrbits :: u32
  usingSoftwareClock :: bool
  isRdhEquipment :: bool
  isDataOn :: bool
  currentBlockId :: u64
  equipmentStats :: EquipmentStats
  statsRdhCheckOk :: u64
  statsRdhCheckErr :: u64
  statsRdhCheckStreamErr :: u64
  statsNumberOfTimeframes :: u64
  currentTimeframe :: u64
  firstTimeframeHbOrbitBegin :: u32
  isDefinedFirstTimeframeHbOrbitBegin :: bool
  bytesReadout :: u64
  dataOut :: "DataBlock list"
  outputFifoSize :: nat

text \<open>
  The constructor's reading of \<^verbatim>\<open>TFperiod\<close>: \<^verbatim>\<open>int cfgTFperiod = 256\<close>, replaced by the
  configured value when there is one, then stored in \<^verbatim>\<open>timeframePeriodOrbits\<close>.
\<close>

definition configureTFperiod :: "int option \<Rightarrow> u32" where
  "configureTFperiod cfgValue =
     (let cfgTFperiod = (case cfgValue of None \<Rightarrow> 256 | Some v \<Rightarrow> v)
      in word_of_int cfgTFperiod)"

text \<open>
  \<^verbatim>\<open>getTimeframeFromOrbit\<close>. The difference, the quotient and the sum are 32-bit
  unsigned; the result is widened to 64 bits. A period of zero stops the process with a
  division by zero.
\<close>

definition getTimeframeFromOrbit ::
  "ReadoutEquipment \<Rightarrow> u32 \<Rightarrow> fault + (u64 \<times> ReadoutEquipment)" where
  "getTimeframeFromOrbit s hbOrbit =
     (let s1 = (if \<not> isDefinedFirstTimeframeHbOrbitBegin s
                then s\<lparr>firstTimeframeHbOrbitBegin := hbOrbit,
                       isDefinedFirstTimeframeHbOrbitBegin := True\<rparr>
                else s)
      in if timeframePeriodOrbits s1 = 0 then Inl DivisionByZero
         else
           let tfId = (ucast (1 + (hbOrbit - firstTimeframeHbOrbitBegin s1)
                                   div timeframePeriodOrbits s1) :: u64);
               s2 = (if tfId \<noteq> currentTimeframe s1
                     then s1\<lparr>statsNumberOfTimeframes := statsNumberOfTimeframes s1 + 1\<rparr>
                     else s1)
           in Inr (tfId, s2\<lparr>currentTimeframe := tfId\<rparr>))"

text \<open>The orbits observed one after the other, each through \<open>getTimeframeFromOrbit\<close>.\<close>

fun getTimeframesFromOrbits ::
  "ReadoutEquipment \<Rightarrow> u32 list \<Rightarrow> fault + (u64 list \<times> ReadoutEquipment)" where
  "getTimeframesFromOrbits s [] = Inr ([], s)"
| "getTimeframesFromOrbits s (hbOrbit # rest) =
     (case getTimeframeFromOrbit s hbOrbit of
        Inl f \<Rightarrow> Inl f
      | Inr (tfId, s1) \<Rightarrow>
          (case getTimeframesFromOrbits s1 rest of
             Inl f \<Rightarrow> Inl f
           | Inr (tfIds, s2) \<Rightarrow> Inr (tfId # tfIds, s2)))"

definition getTimeframeOrbitRange :: "ReadoutEquipment \<Rightarrow> u64 \<Rightarrow> u32 \<times> u32" where
  "getTimeframeOrbitRange s tfId =
     (if tfId = undefinedTimeframeId then (undefinedOrbit, undefinedOrbit)
      else if \<not> isDefinedFirstTimeframeHbOrbitBegin s then (undefinedOrbit, undefinedOrbit)
      else
        let hbOrbitMin = (ucast ((ucast (firstTimeframeHbOrbitBegin s) :: u64)
                                 + (tfId - 1) * ucast (timeframePeriodOrbits s)) :: u32);
            hbOrbitMax = hbOrbitMin + timeframePeriodOrbits s - 1
        in (hbOrbitMin, hbOrbitMax))"

definition tagDatablockFromRdh ::
  "ReadoutEquipment \<Rightarrow> RdhHandle \<Rightarrow> DataBlockHeader
     \<Rightarrow> fault + (bool \<times> DataBlockHeader \<times> ReadoutEquipment)" where
  "tagDatablockFromRdh s h bh =
     (if \<not> rdh_valid h then
        (case getTimeframeOrbitRange s undefinedTimeframeId of (omin, omax) \<Rightarrow>
           Inr (True,
                bh\<lparr>timeframeId := undefinedTimeframeId, systemId := undefinedSystemId,
                   feeId := undefinedFeeId, equipmentId := undefinedEquipmentId,
                   linkId := undefinedLinkId,
                   timeframeOrbitFirst := omin, timeframeOrbitLast := omax\<rparr>,
                s))
      else
        (case getTimeframeFromOrbit s (rdh_hbOrbit h) of
           Inl f \<Rightarrow> Inl f
         | Inr (tfId, s1) \<Rightarrow>
             let eqId0 = (ucast (rdh_cruId h) * 10 + ucast (rdh_endPointId h) :: u16);
                 eqId = (if eqId0 = 0 then undefinedEquipmentId else eqId0)
             in (case getTimeframeOrbitRange s1 tfId of (omin, omax) \<Rightarrow>
                   Inr (False,
                        bh\<lparr>timeframeId := tfId, systemId := rdh_systemId h,
                           feeId := rdh_feeId h, equipmentId := eqId,
                           linkId := rdh_linkId h,
                           timeframeOrbitFirst := omin, timeframeOrbitLast := omax\<rparr>,
                        s1))))"

text \<open>
  The test of \<^verbatim>\<open>processRdh\<close> on the trigger orbit of a header against the orbit range
  of the page (unsigned comparisons).
\<close>

definition orbitOutsideTimeframe :: "u32 \<Rightarrow> u32 \<Rightarrow> u32 \<Rightarrow> bool" where
  "orbitOutsideTimeframe orbitFirst orbitLast triggerOrbit =
     ((orbitFirst < orbitLast \<and> (triggerOrbit < orbitFirst \<or> triggerOrbit > orbitLast))
    \<or> (orbitFirst > orbitLast \<and> (triggerOrbit < orbitFirst \<and> triggerOrbit > orbitLast)))"

text \<open>
  The loop of \<^verbatim>\<open>processRdh\<close> under \<^verbatim>\<open>cfgRdhCheckEnabled\<close>, from the iteration at
  \<open>pageOffset\<close> on. \<open>linkId'\<close> (the local \<^verbatim>\<open>linkId\<close>) and \<open>rdhIndexInPage\<close> are the loop's local variables; the
  result gives the final \<open>rdhIndexInPage\<close>, the number of headers examined.
\<close>

function rdhCheckLoop ::
  "rdh_decoder \<Rightarrow> u8 list \<Rightarrow> nat \<Rightarrow> DataBlockHeader \<Rightarrow> nat \<Rightarrow> int \<Rightarrow> int
     \<Rightarrow> ReadoutEquipment \<Rightarrow> int \<times> ReadoutEquipment" where
  "rdhCheckLoop decode baseAddress blockSize blockHeader pageOffset linkId' rdhIndexInPage s =
     (if \<not> pageOffset < blockSize then (rdhIndexInPage, s)
      else if \<not> rdh_valid (decode baseAddress pageOffset)
        then (rdhIndexInPage + 1, s\<lparr>statsRdhCheckErr := statsRdhCheckErr s + 1\<rparr>)
      else if (if pageOffset = 0 then uint (rdh_linkId (decode baseAddress pageOffset)) else linkId')
              \<noteq> uint (rdh_linkId (decode baseAddress pageOffset))
        then (rdhIndexInPage + 1,
              s\<lparr>statsRdhCheckOk := statsRdhCheckOk s + 1,
                statsRdhCheckStreamErr := statsRdhCheckStreamErr s + 1\<rparr>)
      else if orbitOutsideTimeframe (timeframeOrbitFirst blockHeader)
                (timeframeOrbitLast blockHeader)
                (rdh_triggerOrbit (decode baseAddress pageOffset))
        then (rdhIndexInPage + 1,
              s\<lparr>statsRdhCheckOk := statsRdhCheckOk s + 1,
                statsRdhCheckStreamErr := statsRdhCheckStreamErr s + 1\<rparr>)
      else if rdh_offsetNextPacket (decode baseAddress pageOffset) = 0
        then (rdhIndexInPage + 1, s\<lparr>statsRdhCheckOk := statsRdhCheckOk s + 1\<rparr>)
      else rdhCheckLoop decode baseAddress blockSize blockHeader
             (pageOffset + unat (rdh_offsetNextPacket (decode baseAddress pageOffset)))
             (if pageOffset = 0 then uint (rdh_linkId (decode baseAddress pageOffset)) else linkId')
             (rdhIndexInPage + 1)
             (s\<lparr>statsRdhCheckOk := statsRdhCheckOk s + 1\<rparr>))"
  by pat_completeness auto
termination
proof (relation "measure (\<lambda>(decode, baseAddress, blockSize, blockHeader, pageOffset, rest).
                            blockSize - pageOffset)")
  show "wf (measure (\<lambda>(decode :: rdh_decoder, baseAddress :: u8 list, blockSize :: nat,
                       blockHeader :: DataBlockHeader, pageOffset :: nat,
                       rest :: int \<times> int \<times> ReadoutEquipment). blockSize - pageOffset))"
    by simp
next
  fix decode :: rdh_decoder and baseAddress :: "u8 list" and blockSize pageOffset :: nat
    and blockHeader :: DataBlockHeader and linkId' rdhIndexInPage :: int
    and s :: ReadoutEquipment
  assume "\<not> \<not> pageOffset < blockSize"
    and "rdh_offsetNextPacket (decode baseAddress pageOffset) \<noteq> 0"
  then have "0 < unat (rdh_offsetNextPacket (decode baseAddress pageOffset))"
    and "pageOffset < blockSize"
    by (simp_all add: unat_gt_0)
  then show "((decode, baseAddress, blockSize, blockHeader,
               pageOffset + unat (rdh_offsetNextPacket (decode baseAddress pageOffset)),
               if pageOffset = 0 then uint (rdh_linkId (decode baseAddress pageOffset)) else linkId',
               rdhIndexInPage + 1,
               s\<lparr>statsRdhCheckOk := statsRdhCheckOk s + 1\<rparr>),
              decode, baseAddress, blockSize, blockHeader, pageOffset, linkId', rdhIndexInPage, s)
             \<in> measure (\<lambda>(decode, baseAddress, blockSize, blockHeader, pageOffset, rest).
                            blockSize - pageOffset)"
    by simp
qed

text \<open>
  \<^verbatim>\<open>processRdh\<close>: the result is the return value, the page with its header tagged, and
  the equipment. The dump of headers to the console is left out.
\<close>

definition processRdh ::
  "rdh_decoder \<Rightarrow> ReadoutEquipment \<Rightarrow> DataBlock \<Rightarrow> fault + (int \<times> DataBlock \<times> ReadoutEquipment)" where
  "processRdh decode s block =
     (case data block of
        None \<Rightarrow> Inr (-1, block, s)
      | Some blockData \<Rightarrow>
          (case (if cfgRdhUseFirstInPageEnabled s \<or> cfgRdhCheckEnabled s
                 then (case tagDatablockFromRdh s (decode blockData 0) (header block) of
                         Inl f \<Rightarrow> Inl f
                       | Inr (isError, bh, s1) \<Rightarrow>
                           Inr (if \<not> isError then bh\<lparr>isRdhFormat := True\<rparr> else bh, s1))
                 else Inr (header block, s)) of
             Inl f \<Rightarrow> Inl f
           | Inr (blockHeader, s1) \<Rightarrow>
               Inr (0, block\<lparr>header := blockHeader\<rparr>,
                    if cfgRdhCheckEnabled s1
                    then snd (rdhCheckLoop decode blockData (unat (dataSize blockHeader))
                                blockHeader 0 (uint undefinedLinkId) 0 s1)
                    else s1)))"

declare rdhCheckLoop.simps [simp del]

section \<open>The readout loop\<close>

text \<open>
  What an equipment variant supplies (\<^verbatim>\<open>getNextBlock\<close>, \<^verbatim>\<open>prepareBlocks\<close>,
  \<^verbatim>\<open>initCounters\<close>), over a state \<open>'e\<close> of its own. \<^verbatim>\<open>getNextBlock\<close> gives a page, a
  null reference, or throws.
\<close>

datatype CallbackResult = Ok | Idle | Error

datatype NextBlock = Thrown | NoBlock | Block DataBlock

record 'e EquipmentOps =
  getNextBlock :: "'e \<Rightarrow> NextBlock \<times> 'e"
  prepareBlocks :: "'e \<Rightarrow> CallbackResult \<times> 'e"
  initCounters :: "'e \<Rightarrow> 'e"

text \<open>
  What one call of \<^verbatim>\<open>threadCallback\<close> reads from outside the equipment: the rate clock
  \<^verbatim>\<open>clk.isTimeout()\<close>, the elapsed time \<^verbatim>\<open>clk0.getTime()\<close> in seconds,
  \<^verbatim>\<open>timeframeClock.isTimeout()\<close> and the global \<^verbatim>\<open>occRunNumber\<close>.
\<close>

record ThreadEnv =
  clkIsTimeout :: bool
  clk0Time :: real
  timeframeClockIsTimeout :: bool
  occRunNumber :: u64

text \<open>
  Arithmetic on \<^verbatim>\<open>double\<close> (IEEE 754 binary64, rounding to nearest). A finite
  \<^verbatim>\<open>double\<close> is the real number it holds: a multiple of \<open>2 powi (e - 52)\<close> for the exponent \<open>e\<close>
  of its binade, which is at least \<open>-1022\<close>. The result of a product, of a difference or
  of the conversion of an integer is the exact result rounded to the nearest such
  multiple, to the even one when two are equally near.
\<close>

definition roundToEven :: "real \<Rightarrow> int" where
  "roundToEven x =
     (let f = \<lfloor>x\<rfloor> in
        if x - of_int f < 1 / 2 then f
        else if 1 / 2 < x - of_int f then f + 1
        else if even f then f else f + 1)"

text \<open>
  The exponent of the binade of \<open>x\<close>: the \<open>e\<close> with \<open>2 powi e \<le> \<bar>x\<bar> < 2 powi (e + 1)\<close>, and \<open>-1022\<close> for
  the subnormal numbers and zero.
\<close>

function binadeUp :: "real \<Rightarrow> int" where
  "binadeUp a = (if 2 \<le> a then binadeUp (a / 2) + 1 else 0)"
  by pat_completeness auto
termination
proof (relation "measure (\<lambda>a. nat \<lceil>a\<rceil>)")
  show "wf (measure (\<lambda>a :: real. nat \<lceil>a\<rceil>))" by simp
next
  fix a :: real
  assume a: "2 \<le> a"
  have "a / 2 \<le> a - 1" using a by simp
  then have "\<lceil>a / 2\<rceil> \<le> \<lceil>a - 1\<rceil>" by (rule ceiling_mono)
  then have "\<lceil>a / 2\<rceil> < \<lceil>a\<rceil>" by simp
  moreover have "0 < \<lceil>a\<rceil>" using a by simp
  ultimately show "(a / 2, a) \<in> measure (\<lambda>a. nat \<lceil>a\<rceil>)" by simp
qed

function binadeDown :: "real \<Rightarrow> int \<Rightarrow> int" where
  "binadeDown a e = (if a < 1 \<and> - 1022 < e then binadeDown (a * 2) (e - 1) else e)"
  by pat_completeness auto
termination
  by (relation "measure (\<lambda>(a, e). nat (e + 1022))") simp_all

declare binadeUp.simps [simp del]

declare binadeDown.simps [simp del]

definition doubleExponent :: "real \<Rightarrow> int" where
  "doubleExponent x =
     (if \<bar>x\<bar> < 2 powi (- 1022) then - 1022
      else if 1 \<le> \<bar>x\<bar> then binadeUp \<bar>x\<bar>
      else binadeDown \<bar>x\<bar> 0)"

definition roundDouble :: "real \<Rightarrow> real" where
  "roundDouble x =
     (let q = 2 powi (doubleExponent x - 52)
      in of_int (roundToEven (x / q)) * q)"

text \<open>
  The largest finite \<^verbatim>\<open>double\<close> is below \<open>2 ^ 1024\<close>: a result that rounds to
  \<open>2 ^ 1024\<close> or more is an infinity, which is \<open>None\<close> here (the conversion of an
  infinity to an integer is undefined).
\<close>

definition toDouble :: "real \<Rightarrow> real option" where
  "toDouble x = (if \<bar>roundDouble x\<bar> < 2 ^ 1024 then Some (roundDouble x) else None)"

text \<open>
  The conversion of a \<^verbatim>\<open>double\<close> to \<^verbatim>\<open>int\<close> truncates towards zero; it is undefined
  (\<open>None\<close>) when the truncated value does not fit 32 bits.
\<close>

definition int_of_double :: "real \<Rightarrow> int option" where
  "int_of_double x =
     (let t = (if 0 \<le> x then \<lfloor>x\<rfloor> else \<lceil>x\<rceil>)
      in if - (2 ^ 31) \<le> t \<and> t < 2 ^ 31 then Some t else None)"

text \<open>
  The inner loop \<^verbatim>\<open>for (int i = 0; i < maxBlocksToRead; i++)\<close>, with the number of
  iterations left as first numeric argument. The tuple holds the locals \<open>nPushedOut\<close>
  and \<open>isActive\<close>, the pages tagged so far in this call (in the order in which they
  went through the loop), the equipment and the variant's state.
\<close>

fun readBlocks ::
  "'e EquipmentOps \<Rightarrow> rdh_decoder \<Rightarrow> ThreadEnv \<Rightarrow> nat
     \<Rightarrow> int \<times> bool \<times> DataBlock list \<times> ReadoutEquipment \<times> 'e
     \<Rightarrow> fault + (int \<times> bool \<times> DataBlock list \<times> ReadoutEquipment \<times> 'e)" where
  "readBlocks ops decode env 0 st = Inr st"
| "readBlocks ops decode env (Suc k) (nPushedOut, isActive, emitted, eq, sub) =
     (if outputFifoSize eq \<le> length (dataOut eq)
      then Inr (nPushedOut, isActive, emitted,
                eq\<lparr>equipmentStats := (equipmentStats eq)
                     \<lparr>nOutputFull := nOutputFull (equipmentStats eq) + 1\<rparr>\<rparr>, sub)
      else
        (case getNextBlock ops sub of
           (Thrown, sub1) \<Rightarrow> Inr (nPushedOut, isActive, emitted, eq, sub1)
         | (NoBlock, sub1) \<Rightarrow> Inr (nPushedOut, isActive, emitted, eq, sub1)
         | (Block nextBlock, sub1) \<Rightarrow>
             (case (if isRdhEquipment eq then processRdh decode eq nextBlock
                    else Inr (0, nextBlock, eq)) of
                Inl f \<Rightarrow> Inl f
              | Inr (r, b1, eq1) \<Rightarrow>
                  let h1 = header b1;
                      h2 = (if equipment_id eq1 \<noteq> undefinedEquipmentId
                            then h1\<lparr>equipmentId := equipment_id eq1\<rparr> else h1);
                      eq2 = eq1\<lparr>currentBlockId := currentBlockId eq1 + 1\<rparr>;
                      h3 = h2\<lparr>blockId := currentBlockId eq2\<rparr>;
                      h4 = (if timeframeId h3 = undefinedTimeframeId
                            then h3\<lparr>timeframeId := currentTimeframe eq2\<rparr> else h3);
                      h5 = h4\<lparr>runNumber := occRunNumber env\<rparr>;
                      b5 = b1\<lparr>header := h5\<rparr>;
                      eq3 = eq2\<lparr>equipmentStats := (equipmentStats eq2)
                                 \<lparr>nBytesOut := nBytesOut (equipmentStats eq2) + ucast (dataSize h5)\<rparr>,
                               bytesReadout := bytesReadout eq2 + ucast (dataSize h5)\<rparr>;
                      eq4 = (if \<not> disableOutput eq3
                             then eq3\<lparr>dataOut := dataOut eq3 @ [b5]\<rparr> else eq3)
                  in readBlocks ops decode env k (nPushedOut + 1, True, emitted @ [b5], eq4, sub1))))"

text \<open>
  The budget of an iteration, \<^verbatim>\<open>maxBlocksToRead = readoutRate * clk0.getTime() - nBlocksOut\<close>:
  the product of two \<^verbatim>\<open>double\<close>, the \<^verbatim>\<open>uint64_t\<close> converted to \<^verbatim>\<open>double\<close>, their
  difference, and the conversion of the result to \<^verbatim>\<open>int\<close>.

  \<^verbatim>\<open>threadCallback\<close>: one iteration of the readout loop. The result is the callback's
  return value, the pages tagged in this iteration, the equipment and the variant's
  state.
\<close>

definition maxBlocksToRead :: "ReadoutEquipment \<Rightarrow> ThreadEnv \<Rightarrow> int option" where
  "maxBlocksToRead eq env =
     (if readoutRate eq > 0
      then (case toDouble (readoutRate eq * clk0Time env) of
              None \<Rightarrow> None
            | Some p \<Rightarrow>
                (case toDouble (p - roundDouble (real (unat (nBlocksOut (equipmentStats eq))))) of
                   None \<Rightarrow> None
                 | Some d \<Rightarrow> int_of_double d))
      else Some 1024)"

definition finishCallback ::
  "bool \<Rightarrow> DataBlock list \<Rightarrow> ReadoutEquipment \<Rightarrow> 'e
     \<Rightarrow> CallbackResult \<times> DataBlock list \<times> ReadoutEquipment \<times> 'e" where
  "finishCallback isActive emitted eq sub =
     (if \<not> isActive
      then (Idle, emitted,
            eq\<lparr>equipmentStats := (equipmentStats eq)\<lparr>nIdle := nIdle (equipmentStats eq) + 1\<rparr>\<rparr>,
            sub)
      else (Ok, emitted, eq, sub))"

definition threadCallback ::
  "'e EquipmentOps \<Rightarrow> rdh_decoder \<Rightarrow> ThreadEnv \<Rightarrow> ReadoutEquipment \<times> 'e
     \<Rightarrow> fault + (CallbackResult \<times> DataBlock list \<times> ReadoutEquipment \<times> 'e)" where
  "threadCallback ops decode env st =
     (case st of (eq0, sub) \<Rightarrow>
        let eq1 = (if usingSoftwareClock eq0 \<and> timeframeClockIsTimeout env
                   then eq0\<lparr>currentTimeframe := currentTimeframe eq0 + 1,
                           statsNumberOfTimeframes := statsNumberOfTimeframes eq0 + 1\<rparr>
                   else eq0);
            eq2 = eq1\<lparr>equipmentStats := (equipmentStats eq1)
                       \<lparr>nLoop := nLoop (equipmentStats eq1) + 1\<rparr>\<rparr>
        in (case maxBlocksToRead eq2 env of
              None \<Rightarrow> Inl UndefinedConversion
            | Some m \<Rightarrow>
                if readoutRate eq2 > 0 \<and> \<not> clkIsTimeout env
                   \<and> nBlocksOut (equipmentStats eq2) \<noteq> 0 \<and> m \<le> 0
                then Inr (finishCallback False []
                            (eq2\<lparr>equipmentStats := (equipmentStats eq2)
                                  \<lparr>nThrottle := nThrottle (equipmentStats eq2) + 1\<rparr>\<rparr>) sub)
                else
                  (case readBlocks ops decode env (nat m) (0, False, [], eq2, sub) of
                     Inl f \<Rightarrow> Inl f
                   | Inr (nPushedOut, isActive, emitted, eq3, sub3) \<Rightarrow>
                       let eq4 = eq3\<lparr>equipmentStats := (equipmentStats eq3)
                                   \<lparr>nBlocksOut := nBlocksOut (equipmentStats eq3)
                                                  + word_of_int nPushedOut\<rparr>\<rparr>
                       in if isDataOn eq4
                          then (case prepareBlocks ops sub3 of
                                  (Ok, sub4) \<Rightarrow> Inr (finishCallback True emitted eq4 sub4)
                                | (Idle, sub4) \<Rightarrow> Inr (finishCallback isActive emitted eq4 sub4)
                                | (Error, sub4) \<Rightarrow> Inr (Error, emitted, eq4, sub4))
                          else Inr (finishCallback isActive emitted eq4 sub3))))"

text \<open>
  \<^verbatim>\<open>start\<close>: the statistics and the block counter are reset, then
  \<^verbatim>\<open>ReadoutEquipment::initCounters\<close> and the variant's \<^verbatim>\<open>initCounters\<close> run.
\<close>

definition start :: "'e EquipmentOps \<Rightarrow> ReadoutEquipment \<times> 'e \<Rightarrow> ReadoutEquipment \<times> 'e" where
  "start ops st =
     (case st of (eq, sub) \<Rightarrow>
        (eq\<lparr>equipmentStats := \<lparr>nLoop = 0, nThrottle = 0, nBlocksOut = 0, nOutputFull = 0,
                                nBytesOut = 0, nIdle = 0\<rparr>,
            currentBlockId := 0,
            isDataOn := False,
            statsRdhCheckOk := 0,
            statsRdhCheckErr := 0,
            statsRdhCheckStreamErr := 0,
            statsNumberOfTimeframes := 0,
            currentTimeframe := undefinedTimeframeId,
            firstTimeframeHbOrbitBegin := undefinedOrbit,
            isDefinedFirstTimeframeHbOrbitBegin := False\<rparr>,
         initCounters ops sub))"

text \<open>
  What happens to a started equipment until it is stopped: iterations of the readout
  loop, the consumer taking the oldest page of the output FIFO (\<^verbatim>\<open>getBlock\<close>), the
  control thread switching the data on and off, and the hardware changing the variant's
  state.
\<close>

datatype 'e EquipmentEvent =
    Callback ThreadEnv
  | GetBlock
  | SetDataOn
  | SetDataOff
  | Hardware "'e \<Rightarrow> 'e"

fun runEquipment ::
  "'e EquipmentOps \<Rightarrow> rdh_decoder \<Rightarrow> 'e EquipmentEvent list \<Rightarrow> DataBlock list \<times> ReadoutEquipment \<times> 'e
     \<Rightarrow> fault + (DataBlock list \<times> ReadoutEquipment \<times> 'e)" where
  "runEquipment ops decode [] st = Inr st"
| "runEquipment ops decode (Callback env # evs) (emitted, eq, sub) =
     (case threadCallback ops decode env (eq, sub) of
        Inl f \<Rightarrow> Inl f
      | Inr (r, new, eq1, sub1) \<Rightarrow> runEquipment ops decode evs (emitted @ new, eq1, sub1))"
| "runEquipment ops decode (GetBlock # evs) (emitted, eq, sub) =
     runEquipment ops decode evs (emitted, eq\<lparr>dataOut := tl (dataOut eq)\<rparr>, sub)"
| "runEquipment ops decode (SetDataOn # evs) (emitted, eq, sub) =
     runEquipment ops decode evs (emitted, eq\<lparr>isDataOn := True\<rparr>, sub)"
| "runEquipment ops decode (SetDataOff # evs) (emitted, eq, sub) =
     runEquipment ops decode evs (emitted, eq\<lparr>isDataOn := False\<rparr>, sub)"
| "runEquipment ops decode (Hardware f # evs) (emitted, eq, sub) =
     runEquipment ops decode evs (emitted, eq, f sub)"

definition runFromStart ::
  "'e EquipmentOps \<Rightarrow> rdh_decoder \<Rightarrow> 'e EquipmentEvent list \<Rightarrow> ReadoutEquipment \<times> 'e
     \<Rightarrow> fault + (DataBlock list \<times> ReadoutEquipment \<times> 'e)" where
  "runFromStart ops decode evs st =
     (case start ops st of (eq, sub) \<Rightarrow> runEquipment ops decode evs ([], eq, sub))"

text \<open>
  The part of the configuration of an equipment on which the absence of a fault in the
  readout loop depends: the rate limit, the RDH mode and the timeframe period.
\<close>

definition cfg3 :: "ReadoutEquipment \<Rightarrow> real \<times> bool \<times> u32" where
  "cfg3 eq = (readoutRate eq, isRdhEquipment eq, timeframePeriodOrbits eq)"

section \<open>Concrete inputs for the equipment\<close>

text \<open>
  A small header layout to run the functions on concrete pages: six bytes per header,
  in the order version, heartbeat orbit, trigger orbit, link, offset of the next packet,
  end point; a header is valid when its version is 6. A byte beyond the end of the
  list reads as 0.
\<close>

definition byteAt :: "u8 list \<Rightarrow> nat \<Rightarrow> u8" where
  "byteAt bytes i = (case drop i bytes of [] \<Rightarrow> 0 | b # rest \<Rightarrow> b)"

definition demoDecode :: rdh_decoder where
  "demoDecode bytes off =
     \<lparr>rdh_valid = (byteAt bytes off = 6),
      rdh_hbOrbit = ucast (byteAt bytes (off + 1)),
      rdh_triggerOrbit = ucast (byteAt bytes (off + 2)),
      rdh_linkId = byteAt bytes (off + 3),
      rdh_systemId = 0,
      rdh_feeId = 0,
      rdh_cruId = 0,
      rdh_endPointId = byteAt bytes (off + 5),
      rdh_offsetNextPacket = ucast (byteAt bytes (off + 4))\<rparr>"

definition demoStats :: DataBlockFMQStats where
  "demoStats = \<lparr>magic = 0, countRef = 0, t0 = 0, dataSizeAccounted = 0, memorySizeAccounted = 0\<rparr>"

definition demoHeader :: DataBlockHeader where
  "demoHeader =
     \<lparr>blockId = 0, dataSize = 0, headerSize = 0, memorySize = 0, equipmentId = 0, linkId = 0,
      feeId = 0, systemId = 0, timeframeId = 0, timeframeOrbitFirst = 0, timeframeOrbitLast = 0,
      runNumber = 0, flagEndOfTimeframe = False, isRdhFormat = False, userSpace = demoStats\<rparr>"

text \<open>An equipment in RDH mode with header checks, a period of 256 orbits and no rate limit.\<close>

definition demoEquipment :: ReadoutEquipment where
  "demoEquipment =
     \<lparr>equipment_id = 7, readoutRate = -1, disableOutput = False,
      cfgRdhCheckEnabled = True, cfgRdhUseFirstInPageEnabled = True,
      timeframePeriodOrbits = configureTFperiod None,
      usingSoftwareClock = False, isRdhEquipment = True, isDataOn = False,
      currentBlockId = 0,
      equipmentStats = \<lparr>nLoop = 0, nThrottle = 0, nBlocksOut = 0, nOutputFull = 0,
                         nBytesOut = 0, nIdle = 0\<rparr>,
      statsRdhCheckOk = 0, statsRdhCheckErr = 0, statsRdhCheckStreamErr = 0,
      statsNumberOfTimeframes = 0, currentTimeframe = 0,
      firstTimeframeHbOrbitBegin = 0, isDefinedFirstTimeframeHbOrbitBegin = False,
      bytesReadout = 0, dataOut = [], outputFifoSize = 4\<rparr>"

text \<open>
  Two pages of two headers each, with heartbeat orbit 10 and link 3. In the first page
  the second header is valid and its trigger orbit is 5; in the second page the second
  header has the same trigger orbit and a wrong version.
\<close>

definition demoPageOrbit :: DataBlock where
  "demoPageOrbit =
     \<lparr>header = demoHeader\<lparr>dataSize := 12\<rparr>,
      data = Some [6, 10, 10, 3, 6, 0,  6, 10, 5, 3, 0, 0]\<rparr>"

definition demoPageInvalid :: DataBlock where
  "demoPageInvalid =
     \<lparr>header = demoHeader\<lparr>dataSize := 12\<rparr>,
      data = Some [6, 10, 10, 3, 6, 0,  0, 10, 5, 3, 0, 0]\<rparr>"

text \<open>
  An equipment variant whose state is the queue of its prepared pages:
  \<^verbatim>\<open>getNextBlock\<close> takes the first one, \<^verbatim>\<open>prepareBlocks\<close> is idle.
\<close>

definition demoOps :: "DataBlock list EquipmentOps" where
  "demoOps =
     \<lparr>getNextBlock = (\<lambda>q. case q of [] \<Rightarrow> (NoBlock, []) | b # rest \<Rightarrow> (Block b, rest)),
      prepareBlocks = (\<lambda>q. (Idle, q)),
      initCounters = (\<lambda>q. q)\<rparr>"

definition demoEnv :: ThreadEnv where
  "demoEnv = \<lparr>clkIsTimeout = False, clk0Time = 0, timeframeClockIsTimeout = False,
              occRunNumber = 42\<rparr>"

section \<open>The FairMQ consumer: data model\<close>

text \<open>
  \<^verbatim>\<open>class DataBlockContainer\<close> (\<^verbatim>\<open>DataBlockContainer.h\<close>): the data block and the usable
  size of its buffer. A data set is the vector of the containers of one timeframe and
  link.
\<close>

record DataBlockContainer =
  getData :: DataBlock
  getDataBufferSize :: u64

type_synonym DataSet = "DataBlockContainer list"

text \<open>
  Modelled from the spec: \<^verbatim>\<open>struct SubTimeframe\<close> (\<^verbatim>\<open>SubTimeframe.h\<close>) is not among the
  sources. The fields are those of the STF wire header of section 6 of the
  specification; \<open>stfhDefaults\<close> is the default-constructed header, whose
  \<open>lastTFMessage\<close> is 0 until a data block with the end-of-timeframe flag sets it.
\<close>

record SubTimeframe =
  stf_timeframeId :: u64
  stf_runNumber :: u64
  stf_systemId :: u8
  stf_linkId :: u8
  stf_feeId :: u16
  stf_equipmentId :: u16
  stf_timeframeOrbitFirst :: u32
  stf_timeframeOrbitLast :: u32
  stf_isRdhFormat :: bool
  lastTFMessage :: u8

definition stfhDefaults :: SubTimeframe where
  "stfhDefaults =
     \<lparr>stf_timeframeId = 0, stf_runNumber = 0, stf_systemId = 0xFF, stf_linkId = 0xFF,
      stf_feeId = 0xFFFF, stf_equipmentId = 0xFFFF, stf_timeframeOrbitFirst = 0,
      stf_timeframeOrbitLast = 0, stf_isRdhFormat = False, lastTFMessage = 0\<rparr>"

text \<open>
  A message part handed to the transport: the STF header, a range of bytes of a page
  given by its size and by the bytes that lie there, or (raw format 3) the header of a
  data block.
\<close>

datatype FMQMessage =
    StfMessage SubTimeframe
  | DataMessage nat "u8 list"
  | BlockHeaderMessage DataBlockHeader

record DDMessage =
  messagesToSend :: "FMQMessage list"
  stfHeader :: SubTimeframe
  subTimeframeDataSize :: u64
  subTimeframeTotalSize :: u64
  subTimeframeMemorySize :: u64
  subTimeframeFMQSize :: u64

text \<open>
  The sizes and the decoding that come from headers absent from the sources:
  \<^verbatim>\<open>sizeof(o2::Header::RAWDataHeader)\<close>, \<^verbatim>\<open>sizeof(SubTimeframe)\<close> and the reading of a raw
  data header at an offset of a payload.
\<close>

record Layout =
  sizeof_RAWDataHeader :: nat
  sizeof_SubTimeframe :: nat
  rawDataHeaderAt :: rdh_decoder

text \<open>
  One formatting thread (\<^verbatim>\<open>struct wThread\<close>): its members \<^verbatim>\<open>input\<close>, the FIFO of
  timeframes to format (each the data sets of one timeframe), and \<^verbatim>\<open>output\<close>, the FIFO
  of formatted timeframes, oldest first.
\<close>

record wThread =
  input_fifo :: "DataSet list list"
  output_fifo :: "DDMessage list list"

text \<open>
  The members of \<^verbatim>\<open>class ConsumerFMQchannel\<close> and of its base \<^verbatim>\<open>Consumer\<close> that the push
  path uses. \<open>memoryBuffer\<close> tells whether the unmanaged region exists; \<open>mp\<close> is the
  pool of pages of the consumer, as the list of the buffers of its free pages;
  \<open>channelUp\<close> tells whether \<^verbatim>\<open>Send\<close> succeeds and \<open>sent\<close> lists the multi-part messages
  handed to the transport, oldest first; \<open>senderIx\<close> is the local \<^verbatim>\<open>thIx\<close> of the
  sender thread. Log messages and the statistics of the repacked sizes are left out.
\<close>

record ConsumerFMQchannel =
  disableSending :: bool
  enableRawFormat :: bool
  enableStfSuperpage :: bool
  enableRawFormatDatablock :: bool
  enablePackedCopy :: bool
  memoryBuffer :: bool
  memoryPoolPageSize :: int
  mp :: "u8 list list"
  nPagesUsedForRepack :: u64
  nPagesUsedInput :: u64
  totalPushSuccess :: u64
  totalPushError :: u64
  gReadoutStats :: ReadoutStatsCounters
  channelUp :: bool
  sent :: "FMQMessage list list"
  nwThreads :: nat
  wThreadFifoSize :: nat
  currentTimeframeId :: u64
  currentTimeframeBuffer :: "DataSet list option"
  wThreads :: "wThread list"
  wThreadIxWrite :: nat
  senderIx :: nat

text \<open>
  Modelled from the spec: the pool of pages (\<^verbatim>\<open>MemoryPagesPool\<close>) and the child
  allocation \<^verbatim>\<open>DataBlockContainer::getChildBlock\<close> are not among the sources. Section 4.2
  of the specification: \<open>acquire\<close> returns a page or none when the pool is empty;
  \<open>getChildBlock\<close> sub-allocates the requested bytes from the tail of the parent's
  usable range if available, else returns none. A parent is the buffer of its page and
  the number of bytes already given to children.
\<close>

definition getNewDataBlockContainer ::
  "ConsumerFMQchannel \<Rightarrow> u8 list option \<times> ConsumerFMQchannel" where
  "getNewDataBlockContainer c =
     (case mp c of [] \<Rightarrow> (None, c) | page # rest \<Rightarrow> (Some page, c\<lparr>mp := rest\<rparr>))"

definition getChildBlock :: "u8 list \<times> nat \<Rightarrow> nat \<Rightarrow> (u8 list \<times> (u8 list \<times> nat)) option" where
  "getChildBlock parent nBytes =
     (case parent of (buffer, used) \<Rightarrow>
        if used + nBytes \<le> length buffer
        then Some (take nBytes (drop used buffer), (buffer, used + nBytes))
        else None)"

text \<open>
  The transport: \<^verbatim>\<open>sendingChannel->Send(...)\<close> of a multi-part message. The result tells
  whether the return value is \<open>\<ge> 0\<close>.
\<close>

definition Send :: "FMQMessage list \<Rightarrow> ConsumerFMQchannel \<Rightarrow> bool \<times> ConsumerFMQchannel" where
  "Send msgs c = (if channelUp c then (True, c\<lparr>sent := sent c @ [msgs]\<rparr>) else (False, c))"

text \<open>The accounting functions applied to the user space of a data block.\<close>

definition initBlockStats :: "DataBlock \<Rightarrow> u64 \<Rightarrow> DataBlock" where
  "initBlockStats b v =
     b\<lparr>header := (header b)\<lparr>userSpace := initDataBlockStats (userSpace (header b)) v\<rparr>\<rparr>"

definition incBlockStats ::
  "u64 \<Rightarrow> u64 \<Rightarrow> DataBlock \<times> ReadoutStatsCounters \<Rightarrow> DataBlock \<times> ReadoutStatsCounters" where
  "incBlockStats now v bg =
     (case bg of (b, g) \<Rightarrow>
        (case incDataBlockStats now v (userSpace (header b), g) of (s1, g1) \<Rightarrow>
           (b\<lparr>header := (header b)\<lparr>userSpace := s1\<rparr>\<rparr>, g1)))"

text \<open>
  The accounting of a page freshly taken from the pool (the STF header page, a copy
  block): \<open>initDataBlockStats\<close> then \<open>incDataBlockStats\<close> on its user space; what
  remains outside the page is the change of the global counters.
\<close>

definition accountNewBlock :: "u64 \<Rightarrow> u64 \<Rightarrow> u64 \<Rightarrow> ReadoutStatsCounters \<Rightarrow> ReadoutStatsCounters" where
  "accountNewBlock now memSize dataSizeV g =
     snd (incDataBlockStats now dataSizeV
            (initDataBlockStats
               \<lparr>magic = 0, countRef = 0, t0 = 0, dataSizeAccounted = 0, memorySizeAccounted = 0\<rparr>
               memSize, g))"

section \<open>The FairMQ consumer: formatting a data set\<close>

text \<open>
  \<^verbatim>\<open>struct pendingFrame\<close>: a fragment of a heartbeat frame not sent yet. \<open>blockRef\<close> is
  the position in the data set of the page that holds it.
\<close>

record pendingFrame =
  blockRef :: nat
  HBstart :: nat
  HBlength :: nat
  HBid :: u32

text \<open>
  The state of one call of \<^verbatim>\<open>DDformatMessage\<close>: the pages of the data set (the
  accounting writes into their user space), the local \<^verbatim>\<open>copyBlockBuffer\<close>, the pending
  frames, the message under construction and the consumer.
\<close>

record DDstate =
  pages :: "DataBlockContainer list"
  copyBlockBuffer :: "(u8 list \<times> nat) option"
  pendingFrames :: "pendingFrame list"
  ddm :: DDMessage
  cons :: ConsumerFMQchannel

definition pageData :: "DataBlockContainer list \<Rightarrow> nat \<Rightarrow> u8 list option" where
  "pageData ps i = (if i < length ps then data (getData (ps ! i)) else None)"

text \<open>The bytes \<open>b->data[ix .. ix + l)\<close> of a page.\<close>

definition fragmentBytes :: "DataBlockContainer list \<Rightarrow> pendingFrame \<Rightarrow> u8 list" where
  "fragmentBytes ps f =
     (case pageData ps (blockRef f) of
        None \<Rightarrow> []
      | Some d \<Rightarrow> take (HBlength f) (drop (HBstart f) d))"

text \<open>
  \<^verbatim>\<open>memcpy(&newBlock[newIx], &(b->data[ix]), l)\<close>. Reading or writing outside the
  buffers is undefined in C++: a fault here.
\<close>

definition memcpy_at :: "u8 list \<Rightarrow> nat \<Rightarrow> u8 list option \<Rightarrow> nat \<Rightarrow> nat \<Rightarrow> fault + u8 list" where
  "memcpy_at newBlock newIx src ix l =
     (case src of
        None \<Rightarrow> Inl NullPointer
      | Some d \<Rightarrow>
          if length d < ix + l \<or> length newBlock < newIx + l then Inl BufferOverrun
          else Inr (take newIx newBlock @ take l (drop ix d) @ drop (newIx + l) newBlock))"

text \<open>
  The copy loop of \<^verbatim>\<open>pendingFramesCollect\<close> over the pending frames: the new block, the
  write index \<^verbatim>\<open>newIx\<close> and the counter \<^verbatim>\<open>ddBytesCopied\<close>.
\<close>

fun repackFrames ::
  "DataBlockContainer list \<Rightarrow> pendingFrame list \<Rightarrow> u8 list \<times> nat \<times> u64
     \<Rightarrow> fault + (u8 list \<times> nat \<times> u64)" where
  "repackFrames ps [] st = Inr st"
| "repackFrames ps (f # fs) (newBlock, newIx, bytesCopied) =
     (case memcpy_at newBlock newIx (pageData ps (blockRef f)) (HBstart f) (HBlength f) of
        Inl e \<Rightarrow> Inl e
      | Inr newBlock1 \<Rightarrow>
          repackFrames ps fs (newBlock1, newIx + HBlength f, bytesCopied + word_of_nat (HBlength f)))"

text \<open>
  \<^verbatim>\<open>int totalSize\<close>, the sum of the 32-bit unsigned lengths accumulated in an \<^verbatim>\<open>int\<close>.
\<close>

definition totalSizeOf :: "pendingFrame list \<Rightarrow> int" where
  "totalSizeOf fs = sint (word_of_nat (sum_list (map HBlength fs)) :: 32 word)"

text \<open>
  The allocation of the copy block with \<^verbatim>\<open>enablePackedCopy\<close>: the loop
  \<^verbatim>\<open>for (int i = 0; i <= 2; i++)\<close>, with the number of iterations left. The tuple holds
  \<^verbatim>\<open>copyBlockBuffer\<close>, \<^verbatim>\<open>copyBlock\<close>, \<^verbatim>\<open>isNewBlock\<close>, \<^verbatim>\<open>copyBlockMemSize\<close> and the consumer.
\<close>

fun allocPacked ::
  "nat \<Rightarrow> nat \<Rightarrow> (u8 list \<times> nat) option \<times> u8 list option \<times> bool \<times> int \<times> ConsumerFMQchannel
     \<Rightarrow> (u8 list \<times> nat) option \<times> u8 list option \<times> bool \<times> int \<times> ConsumerFMQchannel" where
  "allocPacked 0 totalSize st = st"
| "allocPacked (Suc k) totalSize (cbb, copyBlock, isNewBlock, copyBlockMemSize, c) =
     (case cbb of
        None \<Rightarrow>
          (case getNewDataBlockContainer c of (pg, c1) \<Rightarrow>
             allocPacked k totalSize
               (map_option (\<lambda>p. (p, 0)) pg, copyBlock, True,
                (case pg of None \<Rightarrow> copyBlockMemSize | Some p \<Rightarrow> int (length p)),
                c1\<lparr>nPagesUsedForRepack := nPagesUsedForRepack c1 + 1\<rparr>))
      | Some parent \<Rightarrow>
          (case getChildBlock parent totalSize of
             None \<Rightarrow> allocPacked k totalSize (None, None, isNewBlock, copyBlockMemSize, c)
           | Some (child, parent1) \<Rightarrow>
               (Some parent1, Some child, isNewBlock, copyBlockMemSize, c)))"

definition allocCopyBlock ::
  "nat \<Rightarrow> (u8 list \<times> nat) option \<times> ConsumerFMQchannel
     \<Rightarrow> (u8 list \<times> nat) option \<times> u8 list option \<times> bool \<times> int \<times> ConsumerFMQchannel" where
  "allocCopyBlock totalSize st =
     (case st of (cbb, c) \<Rightarrow>
        if enablePackedCopy c then allocPacked 3 totalSize (cbb, None, False, 0, c)
        else
          (case getNewDataBlockContainer c of (pg, c1) \<Rightarrow>
             (cbb, pg, True, (case pg of None \<Rightarrow> 0 | Some p \<Rightarrow> int (length p)),
              c1\<lparr>nPagesUsedForRepack := nPagesUsedForRepack c1 + 1\<rparr>)))"

text \<open>
  The lambda \<^verbatim>\<open>pendingFramesCollect\<close>. The boolean of the result tells whether it
  threw (\<^verbatim>\<open>throw __LINE__\<close>: page size too small, no page left); \<open>now\<close> is the clock
  read by the accounting.
\<close>

definition updatePage ::
  "nat \<Rightarrow> (DataBlock \<Rightarrow> DataBlock) \<Rightarrow> DataBlockContainer list \<Rightarrow> DataBlockContainer list" where
  "updatePage i f ps =
     (if i < length ps then ps[i := (ps ! i)\<lparr>getData := f (getData (ps ! i))\<rparr>] else ps)"

definition addMessage :: "FMQMessage \<Rightarrow> nat \<Rightarrow> DDMessage \<Rightarrow> DDMessage" where
  "addMessage msg l m =
     m\<lparr>messagesToSend := messagesToSend m @ [msg],
       subTimeframeFMQSize := subTimeframeFMQSize m + word_of_nat l\<rparr>"

definition collectSingle :: "u64 \<Rightarrow> pendingFrame \<Rightarrow> DDstate \<Rightarrow> DDstate" where
  "collectSingle now f st =
     (let l = HBlength f;
          st1 = (if memoryBuffer (cons st) \<and> blockRef f < length (pages st)
                 then (case incBlockStats now (word_of_nat l)
                              (getData (pages st ! blockRef f), gReadoutStats (cons st)) of
                         (b1, g1) \<Rightarrow>
                           st\<lparr>pages := updatePage (blockRef f) (\<lambda>b. b1) (pages st),
                              cons := (cons st)\<lparr>gReadoutStats := g1\<rparr>\<rparr>)
                 else st)
      in st1\<lparr>ddm := addMessage (DataMessage l (fragmentBytes (pages st) f)) l (ddm st1),
             pendingFrames := []\<rparr>)"

definition collectRepack :: "u64 \<Rightarrow> DDstate \<Rightarrow> fault + (bool \<times> DDstate)" where
  "collectRepack now st =
     (let c0 = cons st;
          c1 = c0\<lparr>gReadoutStats := (gReadoutStats c0)
                   \<lparr>ddHBFRepacked := ddHBFRepacked (gReadoutStats c0) + 1\<rparr>\<rparr>;
          totalSize = totalSizeOf (pendingFrames st)
      in if memoryPoolPageSize c1 < totalSize then Inr (True, st\<lparr>cons := c1\<rparr>)
         else
           (case allocCopyBlock (nat totalSize) (copyBlockBuffer st, c1) of
              (cbb, copyBlock, isNewBlock, copyBlockMemSize, c2) \<Rightarrow>
                (case copyBlock of
                   None \<Rightarrow> Inr (True, st\<lparr>copyBlockBuffer := cbb, cons := c2\<rparr>)
                 | Some newBlock \<Rightarrow>
                     (case repackFrames (pages st) (pendingFrames st)
                             (newBlock, 0, ddBytesCopied (gReadoutStats c2)) of
                        Inl e \<Rightarrow> Inl e
                      | Inr (newBlock1, newIx, copied) \<Rightarrow>
                          let m1 = (if isNewBlock
                                    then (ddm st)\<lparr>subTimeframeMemorySize :=
                                           subTimeframeMemorySize (ddm st) + word_of_int copyBlockMemSize\<rparr>
                                    else ddm st);
                              g3 = (gReadoutStats c2)\<lparr>ddBytesCopied := copied\<rparr>;
                              g4 = (if memoryBuffer c2
                                    then accountNewBlock now (word_of_int copyBlockMemSize)
                                           (word_of_int totalSize) g3
                                    else g3)
                          in Inr (False,
                                  st\<lparr>copyBlockBuffer := cbb,
                                     pendingFrames := [],
                                     ddm := addMessage
                                              (DataMessage (nat totalSize) (take (nat totalSize) newBlock1))
                                              (nat totalSize) m1,
                                     cons := c2\<lparr>gReadoutStats := g4\<rparr>\<rparr>)))))"

definition pendingFramesCollect :: "u64 \<Rightarrow> DDstate \<Rightarrow> fault + (bool \<times> DDstate)" where
  "pendingFramesCollect now st =
     (case pendingFrames st of
        [] \<Rightarrow> Inr (False, st)
      | [f] \<Rightarrow> Inr (False, collectSingle now f st)
      | f # g # fs \<Rightarrow> collectRepack now st)"

definition pendingFramesAppend :: "nat \<Rightarrow> nat \<Rightarrow> u32 \<Rightarrow> nat \<Rightarrow> DDstate \<Rightarrow> DDstate" where
  "pendingFramesAppend ix l hbid br st =
     st\<lparr>pendingFrames := pendingFrames st
           @ [\<lparr>blockRef = br, HBstart = ix, HBlength = l, HBid = hbid\<rparr>]\<rparr>"

text \<open>
  The walk of the second pass over one page, from the iteration at \<open>offset\<close> on: the
  page is \<open>br\<close> (its position in the data set), \<open>blockData\<close> its payload, \<open>blockSize\<close> its
  \<^verbatim>\<open>dataSize\<close>. The tuple holds the locals \<^verbatim>\<open>HBstart\<close> and \<^verbatim>\<open>lastHBid\<close> and the state. The
  boolean of the result tells whether \<^verbatim>\<open>pendingFramesCollect\<close> threw.
\<close>

definition hbfStep ::
  "Layout \<Rightarrow> u64 \<Rightarrow> nat \<Rightarrow> u8 list \<Rightarrow> nat \<Rightarrow> nat \<times> u32 \<times> DDstate
     \<Rightarrow> fault + (bool \<times> nat \<times> u32 \<times> DDstate)" where
  "hbfStep layout now br blockData offset st =
     (case st of (hbStart, lastHBid, s) \<Rightarrow>
        if rdh_hbOrbit (rawDataHeaderAt layout blockData offset) \<noteq> lastHBid
        then
          (let hbLength = offset - hbStart;
               s1 = (if hbLength \<noteq> 0 then pendingFramesAppend hbStart hbLength lastHBid br s
                     else s)
           in (case pendingFramesCollect now s1 of
                 Inl e \<Rightarrow> Inl e
               | Inr (thrown, s2) \<Rightarrow>
                   if thrown then Inr (True, hbStart, lastHBid, s2)
                   else Inr (False, offset,
                             rdh_hbOrbit (rawDataHeaderAt layout blockData offset), s2)))
        else Inr (False, hbStart, lastHBid, s))"

function hbfWalk ::
  "Layout \<Rightarrow> u64 \<Rightarrow> nat \<Rightarrow> u8 list \<Rightarrow> nat \<Rightarrow> nat \<Rightarrow> nat \<times> u32 \<times> DDstate
     \<Rightarrow> fault + (bool \<times> nat \<times> u32 \<times> DDstate)" where
  "hbfWalk layout now br blockData blockSize offset st =
     (if \<not> offset + sizeof_RAWDataHeader layout \<le> blockSize then Inr (False, st)
      else
        (case hbfStep layout now br blockData offset st of
           Inl e \<Rightarrow> Inl e
         | Inr (thrown, st1) \<Rightarrow>
             if thrown then Inr (True, st1)
             else if rdh_offsetNextPacket (rawDataHeaderAt layout blockData offset) = 0
               then Inr (False, st1)
             else hbfWalk layout now br blockData blockSize
                    (offset + unat (rdh_offsetNextPacket (rawDataHeaderAt layout blockData offset)))
                    st1))"
  by pat_completeness auto
termination
proof (relation "measure (\<lambda>(layout, now, br, blockData, blockSize, offset, st). Suc blockSize - offset)")
  show "wf (measure (\<lambda>(layout :: Layout, now :: u64, br :: nat, blockData :: u8 list,
                       blockSize :: nat, offset :: nat, st :: nat \<times> u32 \<times> DDstate). Suc blockSize - offset))"
    by simp
next
  fix layout :: Layout and now :: u64 and br :: nat and blockData :: "u8 list"
    and blockSize offset :: nat and st st1 :: "nat \<times> u32 \<times> DDstate"
  assume "\<not> \<not> offset + sizeof_RAWDataHeader layout \<le> blockSize"
    and "rdh_offsetNextPacket (rawDataHeaderAt layout blockData offset) \<noteq> 0"
  then have "0 < unat (rdh_offsetNextPacket (rawDataHeaderAt layout blockData offset))"
    and "offset \<le> blockSize"
    by (auto simp: unat_gt_0)
  then show "((layout, now, br, blockData, blockSize,
               offset + unat (rdh_offsetNextPacket (rawDataHeaderAt layout blockData offset)), st1),
              layout, now, br, blockData, blockSize, offset, st)
             \<in> measure (\<lambda>(layout, now, br, blockData, blockSize, offset, st). Suc blockSize - offset)"
    by auto
qed

declare hbfWalk.simps [simp del]

text \<open>
  The body of the second pass for the page at position \<open>br\<close>: the accounting is
  initialised, the page is walked, and what is left of it after the last change of
  heartbeat orbit is kept as a pending frame. A payload pointer that is null is
  dereferenced by the walk as soon as the page has room for one header.
\<close>

definition secondPassBlock ::
  "Layout \<Rightarrow> u64 \<Rightarrow> nat \<Rightarrow> u32 \<times> DDstate \<Rightarrow> fault + (bool \<times> u32 \<times> DDstate)" where
  "secondPassBlock layout now br st =
     (case st of (lastHBid, s) \<Rightarrow>
        if \<not> br < length (pages s) then Inl OutOfRange
        else
          let cont = pages s ! br;
              blockSize = unat (dataSize (header (getData cont)));
              s1 = s\<lparr>pages := updatePage br (\<lambda>b. initBlockStats b (getDataBufferSize cont)) (pages s)\<rparr>
          in (case (case data (getData cont) of
                      None \<Rightarrow> if sizeof_RAWDataHeader layout \<le> blockSize then Inl NullPointer
                              else Inr (False, 0, lastHBid, s1)
                    | Some blockData \<Rightarrow>
                        hbfWalk layout now br blockData blockSize 0 (0, lastHBid, s1)) of
                Inl e \<Rightarrow> Inl e
              | Inr (thrown, hbStart, lastHBid1, s2) \<Rightarrow>
                  if thrown then Inr (True, lastHBid1, s2)
                  else if hbStart < blockSize
                    then Inr (False, lastHBid1,
                              pendingFramesAppend hbStart (blockSize - hbStart) lastHBid1 br s2)
                  else Inr (False, lastHBid1, s2)))"

fun secondPass ::
  "Layout \<Rightarrow> u64 \<Rightarrow> nat list \<Rightarrow> u32 \<times> DDstate \<Rightarrow> fault + (bool \<times> u32 \<times> DDstate)" where
  "secondPass layout now [] st = Inr (False, st)"
| "secondPass layout now (br # rest) st =
     (case secondPassBlock layout now br st of
        Inl e \<Rightarrow> Inl e
      | Inr (thrown, st1) \<Rightarrow>
          if thrown then Inr (True, st1) else secondPass layout now rest st1)"

text \<open>
  The first pass over the data set: the sizes, the end-of-timeframe flag and, from the
  first page, the fields of the STF header. The tuple holds the locals
  \<^verbatim>\<open>lastTimeframeId\<close> and \<^verbatim>\<open>isFirst\<close>, \<^verbatim>\<open>copyBlockBuffer\<close>, the STF header and the message.
  The walk of this pass over the headers of the page only logs; what remains of it is
  its dereference of the payload pointer.
\<close>

definition fillStfHeader :: "DataBlockHeader \<Rightarrow> SubTimeframe \<Rightarrow> SubTimeframe" where
  "fillStfHeader h stf =
     stf\<lparr>stf_timeframeId := timeframeId h,
         stf_runNumber := runNumber h,
         stf_systemId := systemId h,
         stf_feeId := feeId h,
         stf_equipmentId := equipmentId h,
         stf_linkId := linkId h,
         stf_timeframeOrbitFirst := timeframeOrbitFirst h,
         stf_timeframeOrbitLast := timeframeOrbitLast h\<rparr>"

fun firstPass ::
  "Layout \<Rightarrow> DataSet \<Rightarrow> u64 \<times> bool \<times> (u8 list \<times> nat) option \<times> SubTimeframe \<times> DDMessage
     \<Rightarrow> fault + (u64 \<times> bool \<times> (u8 list \<times> nat) option \<times> SubTimeframe \<times> DDMessage)" where
  "firstPass layout [] st = Inr st"
| "firstPass layout (br # rest) (lastTimeframeId, isFirst, cbb, stf, m) =
     (let h = header (getData br);
          m1 = m\<lparr>subTimeframeMemorySize := subTimeframeMemorySize m + getDataBufferSize br,
                 subTimeframeDataSize := subTimeframeDataSize m + ucast (dataSize h)\<rparr>;
          stf1 = (if flagEndOfTimeframe h then stf\<lparr>lastTFMessage := 1\<rparr> else stf);
          cbb1 = (if flagEndOfTimeframe h then None else cbb);
          lastTimeframeId1 = (if timeframeId h \<noteq> lastTimeframeId then timeframeId h
                              else lastTimeframeId);
          cbb2 = (if timeframeId h \<noteq> lastTimeframeId then None else cbb1);
          stf2 = (if isFirst then (fillStfHeader h stf1)\<lparr>stf_isRdhFormat := isRdhFormat h\<rparr>
                  else stf1)
      in if data (getData br) = None \<and> sizeof_RAWDataHeader layout \<le> unat (dataSize h)
         then Inl NullPointer
         else firstPass layout rest (lastTimeframeId1, False, cbb2, stf2, m1))"

text \<open>
  \<^verbatim>\<open>DDformatMessage\<close> on a fresh \<^verbatim>\<open>DDMessage\<close>: the result is the return value, the
  message, the pages of the data set after the accounting, and the consumer.
\<close>

definition emptyDDMessage :: DDMessage where
  "emptyDDMessage =
     \<lparr>messagesToSend = [], stfHeader = stfhDefaults, subTimeframeDataSize = 0,
      subTimeframeTotalSize = 0, subTimeframeMemorySize = 0, subTimeframeFMQSize = 0\<rparr>"

definition pushError :: "ConsumerFMQchannel \<Rightarrow> ConsumerFMQchannel" where
  "pushError c = c\<lparr>totalPushError := totalPushError c + 1\<rparr>"

definition DDformatMessage ::
  "Layout \<Rightarrow> u64 \<Rightarrow> DataSet \<Rightarrow> ConsumerFMQchannel
     \<Rightarrow> fault + (int \<times> DDMessage \<times> DataSet \<times> ConsumerFMQchannel)" where
  "DDformatMessage layout now bc c =
     (if memoryPoolPageSize c < int (sizeof_SubTimeframe layout)
      then Inr (-1, emptyDDMessage, bc, pushError c)
      else
        (case getNewDataBlockContainer c of
           (None, c1) \<Rightarrow> Inr (-1, emptyDDMessage, bc, pushError c1)
         | (Some headerBlock, c1) \<Rightarrow>
             let m0 = emptyDDMessage
                        \<lparr>subTimeframeMemorySize := word_of_nat (length headerBlock),
                         subTimeframeDataSize := 0,
                         subTimeframeTotalSize := word_of_nat (sizeof_SubTimeframe layout)\<rparr>
             in (case firstPass layout bc (undefinedTimeframeId, True, None, stfhDefaults, m0) of
                   Inl e \<Rightarrow> Inl e
                 | Inr (lastTimeframeId, isFirst, cbb, stf, m1) \<Rightarrow>
                     let m2 = m1\<lparr>stfHeader := stf,
                                 subTimeframeTotalSize :=
                                   subTimeframeTotalSize m1 + subTimeframeDataSize m1,
                                 subTimeframeFMQSize := 0\<rparr>;
                         c2 = (if memoryBuffer c1
                               then c1\<lparr>gReadoutStats :=
                                        accountNewBlock now (word_of_nat (length headerBlock))
                                          (word_of_nat (sizeof_SubTimeframe layout))
                                          (gReadoutStats c1)\<rparr>
                               else c1);
                         m3 = addMessage (StfMessage stf) (sizeof_SubTimeframe layout) m2;
                         s0 = \<lparr>pages = bc, copyBlockBuffer = cbb, pendingFrames = [],
                               ddm = m3, cons = c2\<rparr>
                     in (case (case secondPass layout now [0..<length bc] (-1, s0) of
                                 Inl e \<Rightarrow> Inl e
                               | Inr (thrown, lastHBid, s1) \<Rightarrow>
                                   if thrown then Inr (True, s1)
                                   else pendingFramesCollect now s1) of
                           Inl e \<Rightarrow> Inl e
                         | Inr (thrown, s2) \<Rightarrow>
                             if thrown
                             then Inr (-1, (ddm s2)\<lparr>messagesToSend := []\<rparr>, pages s2,
                                       pushError (cons s2))
                             else Inr (0, ddm s2, pages s2, cons s2)))))"

text \<open>\<^verbatim>\<open>DDsendMessage\<close>.\<close>

definition DDsendMessage :: "DDMessage \<Rightarrow> ConsumerFMQchannel \<Rightarrow> int \<times> ConsumerFMQchannel" where
  "DDsendMessage m c =
     (case Send (messagesToSend m) c of (ok, c1) \<Rightarrow>
        if ok
        then (0, c1\<lparr>gReadoutStats := (gReadoutStats c1)
                       \<lparr>bytesFairMQ := bytesFairMQ (gReadoutStats c1) + subTimeframeTotalSize m,
                        timeframeIdFairMQ := stf_timeframeId (stfHeader m),
                        notify := notify (gReadoutStats c1) + 1\<rparr>,
                     totalPushSuccess := totalPushSuccess c1 + 1\<rparr>)
        else (-1, c1))"

section \<open>The FairMQ consumer: dispatching to the formatting threads\<close>

text \<open>
  The lambda \<^verbatim>\<open>pushCurrentTimeframe\<close>: the buffer of the current timeframe goes to the
  input FIFO of the thread \<^verbatim>\<open>wThreadIxWrite\<close>, which then advances round-robin. A full
  FIFO drops nothing here: the caller decides what happens to the buffer.
\<close>

definition pushCurrentTimeframe :: "ConsumerFMQchannel \<Rightarrow> fault + (int \<times> ConsumerFMQchannel)" where
  "pushCurrentTimeframe c =
     (case currentTimeframeBuffer c of
        None \<Rightarrow> Inr (0, c)
      | Some buf \<Rightarrow>
          if \<not> wThreadIxWrite c < length (wThreads c) then Inl OutOfRange
          else
            let w = wThreads c ! wThreadIxWrite c
            in if wThreadFifoSize c \<le> length (input_fifo w) then Inr (-1, pushError c)
               else Inr (0,
                         c\<lparr>wThreads := (wThreads c)
                              [wThreadIxWrite c := w\<lparr>input_fifo := input_fifo w @ [buf]\<rparr>],
                           currentTimeframeBuffer := None,
                           wThreadIxWrite := (if wThreadIxWrite c + 1 = nwThreads c then 0
                                              else wThreadIxWrite c + 1)\<rparr>))"

text \<open>
  \<^verbatim>\<open>processForDataDistribution\<close>. The data set reference itself is never null here (its
  caller \<^verbatim>\<open>pushData\<close> has dereferenced it).
\<close>

definition processForDataDistribution ::
  "Layout \<Rightarrow> u64 \<Rightarrow> DataSet \<Rightarrow> ConsumerFMQchannel \<Rightarrow> fault + (int \<times> ConsumerFMQchannel)" where
  "processForDataDistribution layout now bc c =
     (if nwThreads c = 0 then
        (case DDformatMessage layout now bc c of
           Inl e \<Rightarrow> Inl e
         | Inr (r, msg, ps, c1) \<Rightarrow>
             if r \<noteq> 0 then Inr (-1, pushError c1)
             else (case DDsendMessage msg c1 of (r2, c2) \<Rightarrow>
                     if r2 \<noteq> 0 then Inr (-1, pushError c2) else Inr (0, c2)))
      else
        (case bc of
           [] \<Rightarrow> Inr (0, c)
         | first # others \<Rightarrow>
             let b1 = getData first;
                 b2 = getData (last (first # others))
             in if timeframeId (header b1) \<noteq> timeframeId (header b2)
                then Inr (-1, pushError c)
                else
                  (case (if timeframeId (header b1) \<noteq> currentTimeframeId c
                         then (case pushCurrentTimeframe c of
                                 Inl e \<Rightarrow> Inl e
                               | Inr (r, c1) \<Rightarrow>
                                   Inr (c1\<lparr>currentTimeframeBuffer := Some [],
                                           currentTimeframeId := timeframeId (header b1)\<rparr>))
                         else Inr c) of
                     Inl e \<Rightarrow> Inl e
                   | Inr c2 \<Rightarrow>
                       (case currentTimeframeBuffer c2 of
                          None \<Rightarrow> Inr (-1, pushError c2)
                        | Some buf \<Rightarrow>
                            let c3 = c2\<lparr>currentTimeframeBuffer := Some (buf @ [bc])\<rparr>
                            in if flagEndOfTimeframe (header b2)
                               then (case pushCurrentTimeframe c3 of
                                       Inl e \<Rightarrow> Inl e
                                     | Inr (r, c4) \<Rightarrow> Inr (0, c4))
                               else Inr (0, c3)))))"

section \<open>The FairMQ consumer: pushData\<close>

text \<open>The bytes \<open>b->data[0 .. dataSize)\<close> that a message part on a whole page refers to.\<close>

definition pagePart :: "DataBlockContainer \<Rightarrow> FMQMessage" where
  "pagePart br =
     (let b = getData br; blobSize = unat (dataSize (header b))
      in DataMessage blobSize (case data b of None \<Rightarrow> [] | Some d \<Rightarrow> take blobSize d))"

text \<open>Raw format 1: one message per page; a page without payload is skipped.\<close>

fun pushRawFormat :: "DataSet \<Rightarrow> ConsumerFMQchannel \<Rightarrow> ConsumerFMQchannel" where
  "pushRawFormat [] c = c"
| "pushRawFormat (br # rest) c =
     (case data (getData br) of
        None \<Rightarrow> pushRawFormat rest c
      | Some d \<Rightarrow>
          (case Send [pagePart br] c of (ok, c1) \<Rightarrow>
             pushRawFormat rest
               (c1\<lparr>gReadoutStats := (gReadoutStats c1)
                      \<lparr>bytesFairMQ := bytesFairMQ (gReadoutStats c1)
                                        + ucast (dataSize (header (getData br))),
                       notify := notify (gReadoutStats c1) + 1\<rparr>\<rparr>)))"

text \<open>Raw format 3: one two-part message per page, the block header and the payload.\<close>

fun pushRawFormatDatablock :: "DataSet \<Rightarrow> ConsumerFMQchannel \<Rightarrow> ConsumerFMQchannel" where
  "pushRawFormatDatablock [] c = c"
| "pushRawFormatDatablock (br # rest) c =
     (case Send [BlockHeaderMessage (header (getData br)), pagePart br] c of (ok, c1) \<Rightarrow>
        pushRawFormatDatablock rest c1)"

text \<open>
  The StfSuperpage format: the STF header and one part per page. \<^verbatim>\<open>bc->back()\<close> on an
  empty data set is undefined.
\<close>

definition pushStfSuperpage :: "DataSet \<Rightarrow> ConsumerFMQchannel \<Rightarrow> fault + (int \<times> ConsumerFMQchannel)" where
  "pushStfSuperpage bc c =
     (case getNewDataBlockContainer c of
        (None, c1) \<Rightarrow> Inr (-1, pushError c1)
      | (Some headerBlock, c1) \<Rightarrow>
          (case bc of
             [] \<Rightarrow> Inl OutOfRange
           | first # others \<Rightarrow>
               let stf1 = (if flagEndOfTimeframe (header (getData (last (first # others))))
                           then stfhDefaults\<lparr>lastTFMessage := 1\<rparr> else stfhDefaults);
                   stf2 = fillStfHeader (header (getData first)) stf1
               in (case Send (StfMessage stf2 # map pagePart bc) c1 of (ok, c2) \<Rightarrow>
                     Inr (0, c2\<lparr>totalPushSuccess := totalPushSuccess c2 + 1\<rparr>))))"

definition pushData ::
  "Layout \<Rightarrow> u64 \<Rightarrow> DataSet \<Rightarrow> ConsumerFMQchannel \<Rightarrow> fault + (int \<times> ConsumerFMQchannel)" where
  "pushData layout now bc c =
     (let c0 = c\<lparr>nPagesUsedInput := nPagesUsedInput c + word_of_nat (length bc)\<rparr>
      in if disableSending c0
           then Inr (0, c0\<lparr>totalPushSuccess := totalPushSuccess c0 + 1\<rparr>)
         else if enableRawFormat c0
           then (let c1 = pushRawFormat bc c0
                 in Inr (0, c1\<lparr>totalPushSuccess := totalPushSuccess c1 + 1\<rparr>))
         else if enableRawFormatDatablock c0
           then (let c1 = pushRawFormatDatablock bc c0
                 in Inr (0, c1\<lparr>totalPushSuccess := totalPushSuccess c1 + 1\<rparr>))
         else if enableStfSuperpage c0
                 \<or> \<not> (case bc of [] \<Rightarrow> False | br # rest \<Rightarrow> isRdhFormat (header (getData br)))
           then pushStfSuperpage bc c0
         else processForDataDistribution layout now bc c0)"

section \<open>The FairMQ consumer: formatting threads and sender thread\<close>

text \<open>
  The loop of \<^verbatim>\<open>wThreadLoop\<close> over the data sets of a timeframe: the boolean tells
  whether a \<^verbatim>\<open>DDformatMessage\<close> failed, which ends the loop.
\<close>

fun formatTimeframe ::
  "Layout \<Rightarrow> u64 \<Rightarrow> DataSet list \<Rightarrow> DDMessage list \<times> ConsumerFMQchannel
     \<Rightarrow> fault + (bool \<times> DDMessage list \<times> ConsumerFMQchannel)" where
  "formatTimeframe layout now [] st = Inr (False, st)"
| "formatTimeframe layout now (bc # rest) (msglist, c) =
     (case DDformatMessage layout now bc c of
        Inl e \<Rightarrow> Inl e
      | Inr (r, msg, ps, c1) \<Rightarrow>
          if r \<noteq> 0 then Inr (True, msglist @ [msg], c1)
          else formatTimeframe layout now rest (msglist @ [msg], c1))"

text \<open>
  One iteration of \<^verbatim>\<open>wThreadLoop\<close> for the thread \<open>thIx\<close> (while the shutdown flag is
  not set): nothing happens when its output FIFO is full or its input FIFO empty;
  otherwise the oldest timeframe is taken, formatted, and the list of its messages
  pushed to the output FIFO unless an error occurred.
\<close>

definition wThreadLoop ::
  "Layout \<Rightarrow> u64 \<Rightarrow> nat \<Rightarrow> ConsumerFMQchannel \<Rightarrow> fault + ConsumerFMQchannel" where
  "wThreadLoop layout now thIx c =
     (if \<not> thIx < length (wThreads c) then Inl OutOfRange
      else if wThreadFifoSize c \<le> length (output_fifo (wThreads c ! thIx)) then Inr c
      else
        (case input_fifo (wThreads c ! thIx) of
           [] \<Rightarrow> Inr c
         | tf # waiting \<Rightarrow>
             let c1 = c\<lparr>wThreads := (wThreads c)
                          [thIx := (wThreads c ! thIx)\<lparr>input_fifo := waiting\<rparr>]\<rparr>
             in if tf = [] then Inr c1
                else
                  (case formatTimeframe layout now tf ([], c1) of
                     Inl e \<Rightarrow> Inl e
                   | Inr (isError, msglist, c2) \<Rightarrow>
                       if isError then Inr (pushError c2)
                       else if \<not> thIx < length (wThreads c2) then Inl OutOfRange
                       else if wThreadFifoSize c2 \<le> length (output_fifo (wThreads c2 ! thIx))
                         then Inr (pushError c2)
                       else Inr (c2\<lparr>wThreads := (wThreads c2)
                                     [thIx := (wThreads c2 ! thIx)
                                        \<lparr>output_fifo := output_fifo (wThreads c2 ! thIx)
                                                          @ [msglist]\<rparr>]\<rparr>))))"

fun sendMessages :: "DDMessage list \<Rightarrow> bool \<times> ConsumerFMQchannel \<Rightarrow> bool \<times> ConsumerFMQchannel" where
  "sendMessages [] st = st"
| "sendMessages (msg # rest) (isError, c) =
     (case DDsendMessage msg c of (r, c1) \<Rightarrow>
        sendMessages rest (if r \<noteq> 0 then True else isError, c1))"

text \<open>
  One iteration of \<^verbatim>\<open>senderThreadLoop\<close>: the output FIFO of the thread \<open>senderIx\<close> is
  polled; when it holds a timeframe, the index advances round-robin and the messages
  of the timeframe are sent.
\<close>

definition senderThreadLoop :: "ConsumerFMQchannel \<Rightarrow> fault + ConsumerFMQchannel" where
  "senderThreadLoop c =
     (if \<not> senderIx c < length (wThreads c) then Inl OutOfRange
      else
        (case output_fifo (wThreads c ! senderIx c) of
           [] \<Rightarrow> Inr c
         | msglist # waiting \<Rightarrow>
             let c1 = c\<lparr>wThreads := (wThreads c)
                          [senderIx c := (wThreads c ! senderIx c)\<lparr>output_fifo := waiting\<rparr>],
                        senderIx := (if senderIx c + 1 = nwThreads c then 0 else senderIx c + 1)\<rparr>
             in (case sendMessages msglist (False, c1) of (isError, c2) \<Rightarrow>
                   Inr (if isError then pushError c2 else c2))))"

text \<open>
  An execution of the consumer: data sets pushed by the readout, iterations of the
  formatting threads and of the sender thread, in any order.
\<close>

datatype ConsumerEvent = PushData DataSet | WorkerIteration nat | SenderIteration

fun runConsumer ::
  "Layout \<Rightarrow> u64 \<Rightarrow> ConsumerEvent list \<Rightarrow> ConsumerFMQchannel \<Rightarrow> fault + ConsumerFMQchannel" where
  "runConsumer layout now [] c = Inr c"
| "runConsumer layout now (PushData bc # evs) c =
     (case pushData layout now bc c of
        Inl e \<Rightarrow> Inl e
      | Inr (r, c1) \<Rightarrow> runConsumer layout now evs c1)"
| "runConsumer layout now (WorkerIteration thIx # evs) c =
     (case wThreadLoop layout now thIx c of
        Inl e \<Rightarrow> Inl e
      | Inr c1 \<Rightarrow> runConsumer layout now evs c1)"
| "runConsumer layout now (SenderIteration # evs) c =
     (case senderThreadLoop c of
        Inl e \<Rightarrow> Inl e
      | Inr c1 \<Rightarrow> runConsumer layout now evs c1)"

text \<open>The timeframe ids of the STF headers handed to the transport, in order.\<close>

fun sentTimeframeIds :: "FMQMessage list list \<Rightarrow> u64 list" where
  "sentTimeframeIds [] = []"
| "sentTimeframeIds ((StfMessage stf # parts) # rest) = stf_timeframeId stf # sentTimeframeIds rest"
| "sentTimeframeIds (other # rest) = sentTimeframeIds rest"

text \<open>The timeframe ids of the data sets that an execution pushes, in order.\<close>

fun pushedTimeframeIds :: "ConsumerEvent list \<Rightarrow> u64 list" where
  "pushedTimeframeIds [] = []"
| "pushedTimeframeIds (PushData bc # evs) =
     map (\<lambda>br. timeframeId (header (getData br))) bc @ pushedTimeframeIds evs"
| "pushedTimeframeIds (ev # evs) = pushedTimeframeIds evs"

text \<open>
  A message that keeps the STF header of another and starts with the parts of it.
\<close>

definition extendsDDMessage :: "DDMessage \<Rightarrow> DDMessage \<Rightarrow> bool" where
  "extendsDDMessage m m' =
     (stfHeader m' = stfHeader m
    \<and> take (length (messagesToSend m)) (messagesToSend m') = messagesToSend m)"

section \<open>Concrete inputs for the consumer\<close>

text \<open>
  The six-byte header layout of \<open>demoDecode\<close>, an STF header of 8 bytes, a pool of
  four pages of 32 bytes, and a transport that accepts every message.
\<close>

definition demoLayout :: Layout where
  "demoLayout = \<lparr>sizeof_RAWDataHeader = 6, sizeof_SubTimeframe = 8, rawDataHeaderAt = demoDecode\<rparr>"

definition demoCounters :: ReadoutStatsCounters where
  "demoCounters =
     \<lparr>pagesPendingFairMQ = 0, pagesPendingFairMQreleased = 0, pagesPendingFairMQtime = 0,
      ddPayloadPendingBytes = 0, ddMemoryPendingBytes = 0, ddHBFRepacked = 0,
      ddBytesCopied = 0, bytesFairMQ = 0, timeframeIdFairMQ = 0, notify = 0\<rparr>"

definition demoConsumer :: ConsumerFMQchannel where
  "demoConsumer =
     \<lparr>disableSending = False, enableRawFormat = False, enableStfSuperpage = False,
      enableRawFormatDatablock = False, enablePackedCopy = True, memoryBuffer = True,
      memoryPoolPageSize = 32,
      mp = [replicate 32 0, replicate 32 0, replicate 32 0, replicate 32 0],
      nPagesUsedForRepack = 0, nPagesUsedInput = 0, totalPushSuccess = 0, totalPushError = 0,
      gReadoutStats = demoCounters, channelUp = True, sent = [],
      nwThreads = 0, wThreadFifoSize = 0, currentTimeframeId = undefinedTimeframeId,
      currentTimeframeBuffer = None, wThreads = [], wThreadIxWrite = 0, senderIx = 0\<rparr>"

text \<open>The same consumer with two formatting threads (FIFOs of \<open>88 div 2\<close> slots).\<close>

definition demoThreadedConsumer :: ConsumerFMQchannel where
  "demoThreadedConsumer =
     demoConsumer\<lparr>nwThreads := 2, wThreadFifoSize := 44,
                  wThreads := [\<lparr>input_fifo = [], output_fifo = []\<rparr>,
                               \<lparr>input_fifo = [], output_fifo = []\<rparr>]\<rparr>"

text \<open>A page in RDH format of a given timeframe, end-of-timeframe flag and payload.\<close>

definition demoContainer :: "u64 \<Rightarrow> bool \<Rightarrow> u8 list \<Rightarrow> DataBlockContainer" where
  "demoContainer tf eotf bytes =
     \<lparr>getData = \<lparr>header = demoHeader\<lparr>dataSize := word_of_nat (length bytes), linkId := 3,
                                       timeframeId := tf, flagEndOfTimeframe := eotf,
                                       isRdhFormat := True\<rparr>,
                 data = Some bytes\<rparr>,
      getDataBufferSize = 32\<rparr>"

text \<open>
  Payloads of one header each, with heartbeat orbit 10 and link 3: 12 bytes, 8 bytes
  and 24 bytes.
\<close>

definition demoBytesA :: "u8 list" where
  "demoBytesA = [6, 10, 10, 3, 0, 0, 1, 2, 3, 4, 5, 6]"

definition demoBytesB :: "u8 list" where
  "demoBytesB = [6, 10, 10, 3, 0, 0, 7, 8]"

definition demoBytesLong :: "u8 list" where
  "demoBytesLong = [6, 10, 10, 3, 0, 0, 1, 2, 3, 4, 5, 6, 7, 8, 9, 10, 11, 12,
                    13, 14, 15, 16, 17, 18]"


section \<open>The FairMQ consumer: the heartbeat frames of a data set\<close>

text \<open>
  What the specification says of the parts of a message in the STF/HBF format: heartbeat
  frames are identified by walking the RDH chain of each page and grouping contiguous
  runs with identical \<^verbatim>\<open>heartbeatOrbit\<close>; during the walk the fragments of a frame are
  queued; when a new \<^verbatim>\<open>heartbeatOrbit\<close> is seen the accumulated fragments are flushed to the
  message as one part, and the end of the data set flushes the remainder. The
  definitions of this section follow these words on the pages of a data set alone,
  without the formatting state: they give the fragments of each heartbeat frame, to be
  compared with what \<^verbatim>\<open>DDformatMessage\<close> sends.

  The RDH chain of a page: the offsets of its headers, from \<open>offset\<close> on. A header is
  read where the page has room for one, and the chain ends at a header whose
  \<^verbatim>\<open>offsetNextPacket\<close> is 0.
\<close>

function rdhChain :: "Layout \<Rightarrow> u8 list \<Rightarrow> nat \<Rightarrow> nat \<Rightarrow> nat list" where
  "rdhChain layout blockData blockSize offset =
     (if offset + sizeof_RAWDataHeader layout \<le> blockSize
      then offset #
             (if rdh_offsetNextPacket (rawDataHeaderAt layout blockData offset) = 0 then []
              else rdhChain layout blockData blockSize
                     (offset + unat (rdh_offsetNextPacket (rawDataHeaderAt layout blockData offset))))
      else [])"
  by pat_completeness auto
termination
proof (relation "measure (\<lambda>(layout, blockData, blockSize, offset). Suc blockSize - offset)")
  show "wf (measure (\<lambda>(layout :: Layout, blockData :: u8 list, blockSize :: nat, offset :: nat).
                       Suc blockSize - offset))"
    by simp
next
  fix layout :: Layout and blockData :: "u8 list" and blockSize offset :: nat
  assume "offset + sizeof_RAWDataHeader layout \<le> blockSize"
    and "rdh_offsetNextPacket (rawDataHeaderAt layout blockData offset) \<noteq> 0"
  then have "0 < unat (rdh_offsetNextPacket (rawDataHeaderAt layout blockData offset))"
    and "offset \<le> blockSize"
    by (auto simp: unat_gt_0)
  then show "((layout, blockData, blockSize,
               offset + unat (rdh_offsetNextPacket (rawDataHeaderAt layout blockData offset))),
              layout, blockData, blockSize, offset)
             \<in> measure (\<lambda>(layout, blockData, blockSize, offset). Suc blockSize - offset)"
    by auto
qed

declare rdhChain.simps [simp del]

text \<open>
  A fragment is a range of bytes of a page: the position of the page in the data set,
  the offset of the first byte and the number of bytes. The walk of the data set gives
  a sequence of fragments and of changes of heartbeat orbit.
\<close>

type_synonym fragment = "nat \<times> nat \<times> nat"

datatype hbfItem = NewOrbit | Fragment fragment

text \<open>
  The items of the page at position \<open>br\<close>, of \<open>blockSize\<close> bytes, along its chain:
  \<open>hbStart\<close> is where the current fragment starts and \<open>orbit\<close> is the heartbeat orbit of the
  current frame. A header with another orbit ends the current fragment, if it has any
  byte, and the current frame; what is left of the page after the last change belongs
  to the frame that goes on in the next page.
\<close>

fun cutPage :: "(nat \<Rightarrow> u32) \<Rightarrow> nat \<Rightarrow> nat \<Rightarrow> nat \<Rightarrow> u32 \<Rightarrow> nat list \<Rightarrow> hbfItem list" where
  "cutPage orbitAt br blockSize hbStart orbit [] =
     (if hbStart < blockSize then [Fragment (br, hbStart, blockSize - hbStart)] else [])"
| "cutPage orbitAt br blockSize hbStart orbit (offset # chain) =
     (if orbitAt offset \<noteq> orbit
      then (if offset - hbStart \<noteq> 0 then [Fragment (br, hbStart, offset - hbStart)] else [])
           @ NewOrbit # cutPage orbitAt br blockSize offset (orbitAt offset) chain
      else cutPage orbitAt br blockSize hbStart orbit chain)"

text \<open>The heartbeat orbit of the last header of a chain, or \<open>orbit\<close> when the chain is empty.\<close>

fun lastOrbit :: "(nat \<Rightarrow> u32) \<Rightarrow> u32 \<Rightarrow> nat list \<Rightarrow> u32" where
  "lastOrbit orbitAt orbit [] = orbit"
| "lastOrbit orbitAt orbit (offset # chain) = lastOrbit orbitAt (orbitAt offset) chain"

definition pagePayload :: "DataBlockContainer \<Rightarrow> u8 list" where
  "pagePayload p = (case data (getData p) of None \<Rightarrow> [] | Some d \<Rightarrow> d)"

definition pageSize :: "DataBlockContainer \<Rightarrow> nat" where
  "pageSize p = unat (dataSize (header (getData p)))"

definition pageChain :: "Layout \<Rightarrow> DataBlockContainer \<Rightarrow> nat list" where
  "pageChain layout p = rdhChain layout (pagePayload p) (pageSize p) 0"

definition orbitIn :: "Layout \<Rightarrow> DataBlockContainer \<Rightarrow> nat \<Rightarrow> u32" where
  "orbitIn layout p offset = rdh_hbOrbit (rawDataHeaderAt layout (pagePayload p) offset)"

text \<open>The items of the pages of a data set at the positions listed, in this order.\<close>

fun datasetItems :: "Layout \<Rightarrow> DataSet \<Rightarrow> u32 \<Rightarrow> nat list \<Rightarrow> hbfItem list" where
  "datasetItems layout bc orbit [] = []"
| "datasetItems layout bc orbit (br # rest) =
     cutPage (orbitIn layout (bc ! br)) br (pageSize (bc ! br)) 0 orbit (pageChain layout (bc ! br))
     @ datasetItems layout bc
         (lastOrbit (orbitIn layout (bc ! br)) orbit (pageChain layout (bc ! br))) rest"

text \<open>
  The fragments are grouped into frames: \<open>pending\<close> holds the fragments of the current
  frame; a change of orbit and the end of the items close it, if it has a fragment.
\<close>

fun groupItems :: "hbfItem list \<Rightarrow> fragment list \<Rightarrow> fragment list list" where
  "groupItems [] pending = (if pending = [] then [] else [pending])"
| "groupItems (NewOrbit # items) pending =
     (if pending = [] then [] else [pending]) @ groupItems items []"
| "groupItems (Fragment f # items) pending = groupItems items (pending @ [f])"

text \<open>
  The heartbeat frames of a data set, each as the list of its fragments in the order of
  the pages. Before the first header the orbit is the undefined one, \<open>-1\<close>.
\<close>

definition hbfFragments :: "Layout \<Rightarrow> DataSet \<Rightarrow> fragment list list" where
  "hbfFragments layout bc = groupItems (datasetItems layout bc (- 1) [0..<length bc]) []"

text \<open>
  The part of a message for a frame: its size is the sum of the lengths of the fragments
  and its bytes are the bytes of the fragments, one after the other.
\<close>

definition fragmentPayload :: "DataSet \<Rightarrow> fragment \<Rightarrow> u8 list" where
  "fragmentPayload bc f =
     (case f of (br, ix, l) \<Rightarrow>
        (case pageData bc br of None \<Rightarrow> [] | Some d \<Rightarrow> take l (drop ix d)))"

definition fragmentsLength :: "fragment list \<Rightarrow> nat" where
  "fragmentsLength fs = sum_list (map (\<lambda>f. case f of (br, ix, l) \<Rightarrow> l) fs)"

definition hbfPart :: "DataSet \<Rightarrow> fragment list \<Rightarrow> FMQMessage" where
  "hbfPart bc fs = DataMessage (fragmentsLength fs) (concat (map (fragmentPayload bc) fs))"

text \<open>
  For the comparison with the formatting state: the fragment of a pending frame, what
  the accounting leaves unchanged in the pages (payload and size), and the parts of the
  message once the items ahead are processed.
\<close>

definition fragmentOf :: "pendingFrame \<Rightarrow> fragment" where
  "fragmentOf f = (blockRef f, HBstart f, HBlength f)"

definition pagesKey :: "DataSet \<Rightarrow> (u8 list option \<times> u32) list" where
  "pagesKey ps = map (\<lambda>p. (data (getData p), dataSize (header (getData p)))) ps"

definition partsAhead :: "DataSet \<Rightarrow> DDstate \<Rightarrow> hbfItem list \<Rightarrow> FMQMessage list" where
  "partsAhead bc s items =
     messagesToSend (ddm s)
     @ map (hbfPart bc) (groupItems items (map fragmentOf (pendingFrames s)))"

definition groupsFit :: "DDstate \<Rightarrow> hbfItem list \<Rightarrow> bool" where
  "groupsFit s items =
     list_all (\<lambda>fs. fragmentsLength fs < 2 ^ 31)
       (groupItems items (map fragmentOf (pendingFrames s)))"

text \<open>
  A data set of two pages with three heartbeat frames: orbit 10 in the first 6 bytes of
  the first page, orbit 11 in the 12 bytes that follow and in the first 8 bytes of the
  second page, orbit 12 in its last 6 bytes.
\<close>

definition demoBytesX :: "u8 list" where
  "demoBytesX = [6, 10, 10, 3, 6, 0,  6, 11, 11, 3, 0, 0, 1, 2, 3, 4, 5, 6]"

definition demoBytesY :: "u8 list" where
  "demoBytesY = [6, 11, 11, 3, 8, 0, 7, 8,  6, 12, 12, 3, 0, 0]"

definition demoFrames :: DataSet where
  "demoFrames = [demoContainer 1 False demoBytesX, demoContainer 1 True demoBytesY]"
section \<open>Properties of the byte-size parser\<close>



text \<open>
  Claim C10, as stated, fails where the scaled value does not fit the result type: the
  string 8192P parses as the number 8192 followed by P, the scaled value is
  \<open>8192 * 1024 ^ 5 = 2 ^ 63\<close>, and the result is not that value (the conversion of
  \<open>2 ^ 63\<close> to \<^verbatim>\<open>long long\<close> is undefined, and no \<^verbatim>\<open>long long\<close> is \<open>2 ^ 63\<close>).
\<close>

theorem getNumberOfBytesFromString_overflow_counterexample:
  "spec_suffix_exponent (CHR ''P'') = Some 5
 \<and> \<lfloor>(8192 :: real) * 1024 ^ 5\<rfloor> = 2 ^ 63
 \<and> getNumberOfBytesFromString (\<lambda>s. (2, 8192, CHR ''P'')) ''8192P'' \<noteq> Some (2 ^ 63)
 \<and> getNumberOfBytesFromString (\<lambda>s. (2, 8192, CHR ''P'')) ''8192P''
       \<noteq> Some \<lfloor>(8192 :: real) * 1024 ^ 5\<rfloor>"
  by (simp add: getNumberOfBytesFromString_def long_long_of_double_def spec_suffix_exponent_def)


section \<open>Properties of the page accounting\<close>

lemma incDataBlockStats_no_magic:
  "magic s \<noteq> 0xAA \<Longrightarrow> incDataBlockStats now d (s, g) = (s, g)"
  by (simp add: incDataBlockStats_def)

lemma decDataBlockStats_no_magic:
  "magic s \<noteq> 0xAA \<Longrightarrow> decDataBlockStats now (s, g) = (s, g)"
  by (simp add: decDataBlockStats_def)

lemma incDataBlockStats_first:
  assumes "magic s = 0xAA" "countRef s = 0"
  shows "incDataBlockStats now d (s, g) =
     (s\<lparr>countRef := 1, t0 := now, dataSizeAccounted := dataSizeAccounted s + d\<rparr>,
      g\<lparr>pagesPendingFairMQ := pagesPendingFairMQ g + 1,
        notify := notify g + 1,
        ddMemoryPendingBytes := ddMemoryPendingBytes g + memorySizeAccounted s,
        ddPayloadPendingBytes := ddPayloadPendingBytes g + d\<rparr>)"
  using assms by (simp add: incDataBlockStats_def Let_def)

lemma incDataBlockStats_again:
  assumes "magic s = 0xAA" "countRef s \<noteq> 0"
  shows "incDataBlockStats now d (s, g) =
     (s\<lparr>countRef := countRef s + 1, dataSizeAccounted := dataSizeAccounted s + d\<rparr>,
      g\<lparr>ddPayloadPendingBytes := ddPayloadPendingBytes g + d\<rparr>)"
  using assms by (simp add: incDataBlockStats_def Let_def)

lemma decDataBlockStats_last:
  assumes "magic s = 0xAA" "countRef s = 1"
  shows "decDataBlockStats now (s, g) =
     (s\<lparr>countRef := 0, magic := 0\<rparr>,
      g\<lparr>pagesPendingFairMQ := pagesPendingFairMQ g - 1,
        pagesPendingFairMQreleased := pagesPendingFairMQreleased g + 1,
        pagesPendingFairMQtime := pagesPendingFairMQtime g + (now - t0 s),
        ddPayloadPendingBytes := ddPayloadPendingBytes g - dataSizeAccounted s,
        ddMemoryPendingBytes := ddMemoryPendingBytes g - memorySizeAccounted s,
        notify := notify g + 1\<rparr>)"
  using assms by (simp add: decDataBlockStats_def Let_def)

text \<open>
  Claim C9. Outside the in-flight window of a page the accounting does nothing: on a
  block whose magic is not 0xAA, \<open>incDataBlockStats\<close> and \<open>decDataBlockStats\<close> return
  the block's stats and the global counters as they were. The first reference (count 0
  to 1) adds one to \<open>pagesPendingFairMQ\<close>, adds the accounted memory size to
  \<open>ddMemoryPendingBytes\<close> and records \<open>t0\<close>. The last release (count 1 to 0) takes both
  back and clears the magic, and after it every increment and decrement of the same
  block changes nothing.
\<close>

theorem dataBlockStats_window:
  "(magic s \<noteq> 0xAA \<longrightarrow>
      incDataBlockStats now d (s, g) = (s, g) \<and> decDataBlockStats now (s, g) = (s, g))
 \<and> (magic s = 0xAA \<and> countRef s = 0 \<longrightarrow>
      (case incDataBlockStats now d (s, g) of (s', g') \<Rightarrow>
         countRef s' = 1 \<and> t0 s' = now \<and> magic s' = 0xAA
       \<and> pagesPendingFairMQ g' = pagesPendingFairMQ g + 1
       \<and> ddMemoryPendingBytes g' = ddMemoryPendingBytes g + memorySizeAccounted s))
 \<and> (magic s = 0xAA \<and> countRef s = 1 \<longrightarrow>
      (case decDataBlockStats now (s, g) of (s', g') \<Rightarrow>
         countRef s' = 0 \<and> magic s' = 0
       \<and> pagesPendingFairMQ g' = pagesPendingFairMQ g - 1
       \<and> ddMemoryPendingBytes g' = ddMemoryPendingBytes g - memorySizeAccounted s
       \<and> (\<forall>now' d'. incDataBlockStats now' d' (s', g') = (s', g')
                  \<and> decDataBlockStats now' (s', g') = (s', g'))))"
proof (intro conjI impI)
  assume "magic s \<noteq> 0xAA"
  then show "incDataBlockStats now d (s, g) = (s, g)"
    by (rule incDataBlockStats_no_magic)
next
  assume "magic s \<noteq> 0xAA"
  then show "decDataBlockStats now (s, g) = (s, g)"
    by (rule decDataBlockStats_no_magic)
next
  assume "magic s = 0xAA \<and> countRef s = 0"
  then show "case incDataBlockStats now d (s, g) of (s', g') \<Rightarrow>
         countRef s' = 1 \<and> t0 s' = now \<and> magic s' = 0xAA
       \<and> pagesPendingFairMQ g' = pagesPendingFairMQ g + 1
       \<and> ddMemoryPendingBytes g' = ddMemoryPendingBytes g + memorySizeAccounted s"
    by (simp add: incDataBlockStats_first)
next
  assume "magic s = 0xAA \<and> countRef s = 1"
  then show "case decDataBlockStats now (s, g) of (s', g') \<Rightarrow>
         countRef s' = 0 \<and> magic s' = 0
       \<and> pagesPendingFairMQ g' = pagesPendingFairMQ g - 1
       \<and> ddMemoryPendingBytes g' = ddMemoryPendingBytes g - memorySizeAccounted s
       \<and> (\<forall>now' d'. incDataBlockStats now' d' (s', g') = (s', g')
                  \<and> decDataBlockStats now' (s', g') = (s', g'))"
    by (simp add: decDataBlockStats_last incDataBlockStats_no_magic decDataBlockStats_no_magic)
qed

theorem dataBlockStats_window_witness:
  "incDataBlockStats 7 100
     (\<lparr>magic = 0, countRef = 0, t0 = 0, dataSizeAccounted = 0, memorySizeAccounted = 4096\<rparr>,
      \<lparr>pagesPendingFairMQ = 0, pagesPendingFairMQreleased = 0, pagesPendingFairMQtime = 0,
       ddPayloadPendingBytes = 0, ddMemoryPendingBytes = 0, ddHBFRepacked = 0,
       ddBytesCopied = 0, bytesFairMQ = 0, timeframeIdFairMQ = 0, notify = 0\<rparr>)
   = (\<lparr>magic = 0, countRef = 0, t0 = 0, dataSizeAccounted = 0, memorySizeAccounted = 4096\<rparr>,
      \<lparr>pagesPendingFairMQ = 0, pagesPendingFairMQreleased = 0, pagesPendingFairMQtime = 0,
       ddPayloadPendingBytes = 0, ddMemoryPendingBytes = 0, ddHBFRepacked = 0,
       ddBytesCopied = 0, bytesFairMQ = 0, timeframeIdFairMQ = 0, notify = 0\<rparr>)
 \<and> (case incDataBlockStats 7 100
        (\<lparr>magic = 0xAA, countRef = 0, t0 = 0, dataSizeAccounted = 0, memorySizeAccounted = 4096\<rparr>,
         \<lparr>pagesPendingFairMQ = 0, pagesPendingFairMQreleased = 0, pagesPendingFairMQtime = 0,
          ddPayloadPendingBytes = 0, ddMemoryPendingBytes = 0, ddHBFRepacked = 0,
          ddBytesCopied = 0, bytesFairMQ = 0, timeframeIdFairMQ = 0, notify = 0\<rparr>)
      of (s', g') \<Rightarrow>
        countRef s' = 1 \<and> t0 s' = 7 \<and> pagesPendingFairMQ g' = 1 \<and> ddMemoryPendingBytes g' = 4096)
 \<and> (case decDataBlockStats 9
        (\<lparr>magic = 0xAA, countRef = 1, t0 = 7, dataSizeAccounted = 100, memorySizeAccounted = 4096\<rparr>,
         \<lparr>pagesPendingFairMQ = 1, pagesPendingFairMQreleased = 0, pagesPendingFairMQtime = 0,
          ddPayloadPendingBytes = 100, ddMemoryPendingBytes = 4096, ddHBFRepacked = 0,
          ddBytesCopied = 0, bytesFairMQ = 0, timeframeIdFairMQ = 0, notify = 1\<rparr>)
      of (s', g') \<Rightarrow>
        countRef s' = 0 \<and> magic s' = 0 \<and> pagesPendingFairMQ g' = 0 \<and> ddMemoryPendingBytes g' = 0
      \<and> incDataBlockStats 11 5 (s', g') = (s', g') \<and> decDataBlockStats 11 (s', g') = (s', g'))"
proof -
  let ?g0 = "\<lparr>pagesPendingFairMQ = 0, pagesPendingFairMQreleased = 0, pagesPendingFairMQtime = 0,
       ddPayloadPendingBytes = 0, ddMemoryPendingBytes = 0, ddHBFRepacked = 0,
       ddBytesCopied = 0, bytesFairMQ = 0, timeframeIdFairMQ = 0, notify = 0\<rparr>"
  let ?g1 = "\<lparr>pagesPendingFairMQ = 1, pagesPendingFairMQreleased = 0, pagesPendingFairMQtime = 0,
       ddPayloadPendingBytes = 100, ddMemoryPendingBytes = 4096, ddHBFRepacked = 0,
       ddBytesCopied = 0, bytesFairMQ = 0, timeframeIdFairMQ = 0, notify = 1\<rparr>"
  have a: "magic \<lparr>magic = 0, countRef = 0, t0 = 0, dataSizeAccounted = 0,
             memorySizeAccounted = (4096 :: u64)\<rparr> \<noteq> 0xAA"
    by simp
  show ?thesis
    using a
      dataBlockStats_window [of "\<lparr>magic = 0, countRef = 0, t0 = 0, dataSizeAccounted = 0,
             memorySizeAccounted = 4096\<rparr>" 7 100 ?g0]
      dataBlockStats_window [of "\<lparr>magic = 0xAA, countRef = 0, t0 = 0, dataSizeAccounted = 0,
             memorySizeAccounted = 4096\<rparr>" 7 100 ?g0]
      dataBlockStats_window [of "\<lparr>magic = 0xAA, countRef = 1, t0 = 7, dataSizeAccounted = 100,
             memorySizeAccounted = 4096\<rparr>" 9 0 ?g1]
    by (simp split: prod.splits)
qed

section \<open>Properties of the timeframe identification\<close>

lemma getTimeframeFromOrbit_defined:
  assumes "isDefinedFirstTimeframeHbOrbitBegin s" "timeframePeriodOrbits s \<noteq> 0"
  shows "\<exists>s'. getTimeframeFromOrbit s hbOrbit =
           Inr (ucast (1 + (hbOrbit - firstTimeframeHbOrbitBegin s) div timeframePeriodOrbits s), s')
       \<and> isDefinedFirstTimeframeHbOrbitBegin s'
       \<and> firstTimeframeHbOrbitBegin s' = firstTimeframeHbOrbitBegin s
       \<and> timeframePeriodOrbits s' = timeframePeriodOrbits s"
  using assms by (simp add: getTimeframeFromOrbit_def Let_def)

lemma getTimeframeFromOrbit_first:
  assumes "\<not> isDefinedFirstTimeframeHbOrbitBegin s" "timeframePeriodOrbits s \<noteq> 0"
  shows "\<exists>s'. getTimeframeFromOrbit s hbOrbit = Inr (1, s')
       \<and> isDefinedFirstTimeframeHbOrbitBegin s'
       \<and> firstTimeframeHbOrbitBegin s' = hbOrbit
       \<and> timeframePeriodOrbits s' = timeframePeriodOrbits s"
  using assms by (simp add: getTimeframeFromOrbit_def Let_def)

lemma getTimeframesFromOrbits_defined:
  assumes "isDefinedFirstTimeframeHbOrbitBegin s" "timeframePeriodOrbits s \<noteq> 0"
  shows "\<exists>s'. getTimeframesFromOrbits s orbits =
           Inr (map (\<lambda>orbit. ucast (1 + (orbit - firstTimeframeHbOrbitBegin s)
                                         div timeframePeriodOrbits s)) orbits, s')
       \<and> firstTimeframeHbOrbitBegin s' = firstTimeframeHbOrbitBegin s"
  using assms
proof (induction orbits arbitrary: s)
  case Nil
  then show ?case by simp
next
  case (Cons a orbits)
  from getTimeframeFromOrbit_defined [OF Cons.prems, of a]
  obtain s1 where s1: "getTimeframeFromOrbit s a =
           Inr (ucast (1 + (a - firstTimeframeHbOrbitBegin s) div timeframePeriodOrbits s), s1)"
     "isDefinedFirstTimeframeHbOrbitBegin s1"
     "firstTimeframeHbOrbitBegin s1 = firstTimeframeHbOrbitBegin s"
     "timeframePeriodOrbits s1 = timeframePeriodOrbits s"
    by blast
  from Cons.IH [of s1] s1 Cons.prems
  obtain s2 where "getTimeframesFromOrbits s1 orbits =
           Inr (map (\<lambda>orbit. ucast (1 + (orbit - firstTimeframeHbOrbitBegin s)
                                         div timeframePeriodOrbits s)) orbits, s2)"
       "firstTimeframeHbOrbitBegin s2 = firstTimeframeHbOrbitBegin s"
    by auto
  with s1 show ?case by simp
qed

lemma unat_ucast_u32_u64: "unat (ucast (w :: u32) :: u64) = unat w"
proof -
  have "unat w < 2 ^ 32"
    using unsigned_less [of w] by simp
  then have "unat w < 2 ^ 64"
    by (rule order_less_trans) simp
  then show ?thesis
    by (simp add: unsigned_ucast_eq take_bit_nat_eq_self)
qed

lemma unat_timeframe_formula:
  fixes orbit firstOrbit p :: u32
  assumes "firstOrbit \<le> orbit" "(unat orbit - unat firstOrbit) div unat p + 1 < 2 ^ 32"
  shows "unat (ucast (1 + (orbit - firstOrbit) div p) :: u64)
           = 1 + (unat orbit - unat firstOrbit) div unat p"
proof -
  have d: "unat (orbit - firstOrbit) = unat orbit - unat firstOrbit"
    using assms(1) by (simp add: unat_sub)
  have q: "unat ((orbit - firstOrbit) div p) = (unat orbit - unat firstOrbit) div unat p"
    by (simp add: unat_div d)
  have "unat (1 + (orbit - firstOrbit) div p) = 1 + (unat orbit - unat firstOrbit) div unat p"
    using assms(2) q by (simp add: unat_word_ariths)
  moreover have "unat (ucast (1 + (orbit - firstOrbit) div p) :: u64)
                   = unat (1 + (orbit - firstOrbit) div p)"
    by (rule unat_ucast_u32_u64)
  ultimately show ?thesis by simp
qed

text \<open>
  Claim C4. With timeframes identified from the RDH, the first heartbeat orbit observed
  is recorded as \<open>firstTimeframeHbOrbitBegin\<close>, and every orbit observed from then on
  (the first one included, which gets timeframe 1) is mapped to
  \<open>1 + (orbit - firstOrbit) div TFperiod\<close>, computed on 32-bit unsigned values and
  widened to 64 bits. Where the orbit is not below the first one and the sum does not
  leave 32 bits, this is the same formula on natural numbers. Without a configured
  value the period is 256 orbits. A period of zero is excluded: the division stops the
  process.
\<close>

theorem getTimeframeFromOrbit_formula:
  assumes "\<not> isDefinedFirstTimeframeHbOrbitBegin s" and "timeframePeriodOrbits s \<noteq> 0"
  shows "configureTFperiod None = 256
       \<and> (case getTimeframesFromOrbits s (firstOrbit # orbits) of
           Inl f \<Rightarrow> False
         | Inr (tfIds, s') \<Rightarrow>
             firstTimeframeHbOrbitBegin s' = firstOrbit
           \<and> tfIds = map (\<lambda>orbit. ucast (1 + (orbit - firstOrbit) div timeframePeriodOrbits s))
                         (firstOrbit # orbits)
           \<and> hd tfIds = 1
           \<and> (\<forall>i < length orbits.
                 firstOrbit \<le> orbits ! i
               \<and> (unat (orbits ! i) - unat firstOrbit) div unat (timeframePeriodOrbits s) + 1 < 2 ^ 32
               \<longrightarrow> unat (tfIds ! Suc i)
                     = 1 + (unat (orbits ! i) - unat firstOrbit) div unat (timeframePeriodOrbits s)))"
proof -
  from getTimeframeFromOrbit_first [OF assms, of firstOrbit]
  obtain s1 where s1: "getTimeframeFromOrbit s firstOrbit = Inr (1, s1)"
     "isDefinedFirstTimeframeHbOrbitBegin s1"
     "firstTimeframeHbOrbitBegin s1 = firstOrbit"
     "timeframePeriodOrbits s1 = timeframePeriodOrbits s"
    by blast
  from getTimeframesFromOrbits_defined [of s1 orbits] s1 assms(2)
  obtain s2 where s2: "getTimeframesFromOrbits s1 orbits =
           Inr (map (\<lambda>orbit. ucast (1 + (orbit - firstOrbit) div timeframePeriodOrbits s)) orbits, s2)"
       "firstTimeframeHbOrbitBegin s2 = firstOrbit"
    by auto
  show ?thesis
    using s1 s2 by (simp add: unat_timeframe_formula configureTFperiod_def)
qed

theorem getTimeframeFromOrbit_formula_witness:
  "timeframePeriodOrbits demoEquipment = 256
 \<and> map_sum id fst (getTimeframesFromOrbits demoEquipment [1000, 1255, 1256, 2000])
     = Inr [1, 1, 2, 4]"
proof -
  have h: "\<not> isDefinedFirstTimeframeHbOrbitBegin demoEquipment"
    "timeframePeriodOrbits demoEquipment \<noteq> 0"
    by (simp_all add: demoEquipment_def configureTFperiod_def)
  have p: "timeframePeriodOrbits demoEquipment = 256"
    by (simp add: demoEquipment_def configureTFperiod_def)
  from getTimeframeFromOrbit_formula [OF h, of 1000 "[1255, 1256, 2000]"]
  obtain tfIds s' where
    r: "getTimeframesFromOrbits demoEquipment [1000, 1255, 1256, 2000] = Inr (tfIds, s')"
    and t: "tfIds = map (\<lambda>orbit. ucast (1 + (orbit - 1000) div timeframePeriodOrbits demoEquipment))
                      [1000, 1255, 1256, 2000]"
    by (auto split: sum.splits prod.splits simp del: getTimeframesFromOrbits.simps)
  from t have "tfIds = [1, 1, 2, 4]"
    by (simp add: p)
  with r p show ?thesis
    by (simp del: getTimeframesFromOrbits.simps)
qed

section \<open>Properties of the RDH check\<close>

lemma demoDecode_simps:
  "rdh_valid (demoDecode bytes off) = (byteAt bytes off = 6)"
  "rdh_hbOrbit (demoDecode bytes off) = ucast (byteAt bytes (off + 1))"
  "rdh_triggerOrbit (demoDecode bytes off) = ucast (byteAt bytes (off + 2))"
  "rdh_linkId (demoDecode bytes off) = byteAt bytes (off + 3)"
  "rdh_offsetNextPacket (demoDecode bytes off) = ucast (byteAt bytes (off + 4))"
  "rdh_cruId (demoDecode bytes off) = 0"
  "rdh_endPointId (demoDecode bytes off) = byteAt bytes (off + 5)"
  "rdh_systemId (demoDecode bytes off) = 0"
  "rdh_feeId (demoDecode bytes off) = 0"
  by (simp_all add: demoDecode_def)

lemmas demo_unfold = processRdh_def tagDatablockFromRdh_def demoDecode_simps byteAt_def
  getTimeframeFromOrbit_def demoEquipment_def configureTFperiod_def getTimeframeOrbitRange_def
  undefinedTimeframeId_def Let_def undefinedEquipmentId_def demoHeader_def undefinedLinkId_def
  orbitOutsideTimeframe_def rdhCheckLoop.simps

text \<open>
  The wrap-aware comparison as the specification words it.
\<close>

lemma orbitOutsideTimeframe_iff:
  "orbitOutsideTimeframe orbitFirst orbitLast orbit \<longleftrightarrow>
     (orbitFirst < orbitLast \<and> (orbit < orbitFirst \<or> orbitLast < orbit))
   \<or> (orbitLast < orbitFirst \<and> orbit < orbitFirst \<and> orbitLast < orbit)"
  by (auto simp: orbitOutsideTimeframe_def)

text \<open>
  Claim C5, as stated, fails on a header that does not validate: the second header of
  \<open>demoPageInvalid\<close> is reached by the walk, its trigger orbit 5 is outside the range
  10 to 265 of the page, and the walk ends on the validation error, which counts in
  \<open>statsRdhCheckErr\<close> and leaves \<open>statsRdhCheckStreamErr\<close> as it was.
\<close>

theorem processRdh_invalid_header_counterexample:
  "rdh_triggerOrbit (demoDecode [6, 10, 10, 3, 6, 0,  0, 10, 5, 3, 0, 0] 6) = 5
 \<and> orbitOutsideTimeframe 10 265 5
 \<and> (case processRdh demoDecode demoEquipment demoPageInvalid of
      Inl f \<Rightarrow> False
    | Inr (r, b, s) \<Rightarrow>
        timeframeOrbitFirst (header b) = 10 \<and> timeframeOrbitLast (header b) = 265
      \<and> statsRdhCheckOk s = 1 \<and> statsRdhCheckErr s = 1
      \<and> statsRdhCheckStreamErr s = statsRdhCheckStreamErr demoEquipment)"
  by (simp add: demo_unfold demoPageInvalid_def)

text \<open>
  Claim C5, amended. At every iteration of the walk (any offset inside the page, any
  state of the loop), a header that validates and whose trigger orbit is outside the
  orbit range of the page header, by the wrap-aware comparison, adds exactly one to
  \<open>statsRdhCheckStreamErr\<close> and ends the walk of that page: the result is fixed by
  this iteration alone, and the header is the last one counted in \<open>rdhIndexInPage\<close>.
\<close>

theorem rdhCheckLoop_orbit_outside:
  assumes "pageOffset < blockSize"
    and "rdh_valid (decode baseAddress pageOffset)"
    and "orbitOutsideTimeframe (timeframeOrbitFirst blockHeader) (timeframeOrbitLast blockHeader)
           (rdh_triggerOrbit (decode baseAddress pageOffset))"
  shows "rdhCheckLoop decode baseAddress blockSize blockHeader pageOffset linkId' rdhIndexInPage s
           = (rdhIndexInPage + 1,
              s\<lparr>statsRdhCheckOk := statsRdhCheckOk s + 1,
                statsRdhCheckStreamErr := statsRdhCheckStreamErr s + 1\<rparr>)"
  using assms by (subst rdhCheckLoop.simps) simp

theorem rdhCheckLoop_orbit_outside_witness:
  "rdhCheckLoop demoDecode [6, 10, 10, 3, 6, 0,  6, 10, 5, 3, 0, 0] 12
     (demoHeader\<lparr>timeframeOrbitFirst := 10, timeframeOrbitLast := 265\<rparr>) 6 3 1 demoEquipment
   = (2, demoEquipment\<lparr>statsRdhCheckOk := statsRdhCheckOk demoEquipment + 1,
                       statsRdhCheckStreamErr := statsRdhCheckStreamErr demoEquipment + 1\<rparr>)"
  using rdhCheckLoop_orbit_outside
    [of 6 12 demoDecode "[6, 10, 10, 3, 6, 0,  6, 10, 5, 3, 0, 0]"
        "demoHeader\<lparr>timeframeOrbitFirst := 10, timeframeOrbitLast := 265\<rparr>" 3 1 demoEquipment]
  by (simp add: demoDecode_simps byteAt_def orbitOutsideTimeframe_def)

text \<open>The whole of \<open>processRdh\<close> on the page whose second header is valid.\<close>

lemma processRdh_demoPageOrbit:
  "(case processRdh demoDecode demoEquipment demoPageOrbit of
      Inl f \<Rightarrow> False
    | Inr (r, b, s) \<Rightarrow>
        timeframeOrbitFirst (header b) = 10 \<and> timeframeOrbitLast (header b) = 265
      \<and> statsRdhCheckOk s = 2 \<and> statsRdhCheckErr s = 0 \<and> statsRdhCheckStreamErr s = 1)"
  by (simp add: demo_unfold demoPageOrbit_def)

section \<open>Properties of the readout loop\<close>

lemma rdhCheckLoop_frame:
  assumes "\<And>s x. f (s\<lparr>statsRdhCheckOk := x\<rparr>) = f s"
    and "\<And>s x. f (s\<lparr>statsRdhCheckErr := x\<rparr>) = f s"
    and "\<And>s x. f (s\<lparr>statsRdhCheckStreamErr := x\<rparr>) = f s"
  shows "f (snd (rdhCheckLoop decode baseAddress blockSize blockHeader pageOffset linkId'
                   rdhIndexInPage s)) = f s"
proof (induction decode baseAddress blockSize blockHeader pageOffset linkId' rdhIndexInPage s
       rule: rdhCheckLoop.induct)
  case (1 decode baseAddress blockSize blockHeader pageOffset linkId' rdhIndexInPage s)
  show ?case
  proof (cases "pageOffset < blockSize \<and> rdh_valid (decode baseAddress pageOffset)
      \<and> (if pageOffset = 0 then uint (rdh_linkId (decode baseAddress pageOffset)) else linkId')
              = uint (rdh_linkId (decode baseAddress pageOffset))
      \<and> \<not> orbitOutsideTimeframe (timeframeOrbitFirst blockHeader)
                (timeframeOrbitLast blockHeader)
                (rdh_triggerOrbit (decode baseAddress pageOffset))
      \<and> rdh_offsetNextPacket (decode baseAddress pageOffset) \<noteq> 0")
    case True
    then have "f (snd (rdhCheckLoop decode baseAddress blockSize blockHeader
             (pageOffset + unat (rdh_offsetNextPacket (decode baseAddress pageOffset)))
             (if pageOffset = 0 then uint (rdh_linkId (decode baseAddress pageOffset)) else linkId')
             (rdhIndexInPage + 1)
             (s\<lparr>statsRdhCheckOk := statsRdhCheckOk s + 1\<rparr>)))
          = f (s\<lparr>statsRdhCheckOk := statsRdhCheckOk s + 1\<rparr>)"
      by (intro "1.IH") simp_all
    moreover have "rdhCheckLoop decode baseAddress blockSize blockHeader pageOffset linkId'
                     rdhIndexInPage s
        = rdhCheckLoop decode baseAddress blockSize blockHeader
             (pageOffset + unat (rdh_offsetNextPacket (decode baseAddress pageOffset)))
             (if pageOffset = 0 then uint (rdh_linkId (decode baseAddress pageOffset)) else linkId')
             (rdhIndexInPage + 1)
             (s\<lparr>statsRdhCheckOk := statsRdhCheckOk s + 1\<rparr>)"
      using True by (subst rdhCheckLoop.simps) (simp split del: if_split)
    ultimately show ?thesis
      by (simp add: assms split del: if_split)
  next
    case False
    then show ?thesis
      by (subst rdhCheckLoop.simps) (auto simp: assms)
  qed
qed


text \<open>
  The arithmetic on \<^verbatim>\<open>double\<close> at some values: one tenth; the largest finite value and
  the overflow next to it; the smallest subnormal value; and a product that lies half
  way between two values, with the budget that results from it.
\<close>

lemmas double_unfold = toDouble_def roundDouble_def doubleExponent_def binadeUp.simps
  binadeDown.simps roundToEven_def Let_def

lemma roundDouble_examples:
  "roundDouble (1 / 10) = 3602879701896397 / 2 ^ 55
 \<and> roundDouble (1 / 2) = 1 / 2
 \<and> roundDouble 18446744073709551615 = 18446744073709551616
 \<and> roundDouble (6305039478318694 / 2 ^ 53 * 10) = 7"
  by (simp add: double_unfold)

lemma toDouble_0: "toDouble 0 = Some 0"
  by (simp add: double_unfold)

lemma roundDouble_0: "roundDouble 0 = 0"
  by (simp add: double_unfold)

lemma toDouble_500: "toDouble 500 = Some 500"
  by (simp add: double_unfold)

lemma roundDouble_600: "roundDouble 600 = 600"
  by (simp add: double_unfold)

lemma toDouble_minus_100: "toDouble (- 100) = Some (- 100)"
  by (simp add: double_unfold)

lemma maxBlocksToRead_rounded:
  "maxBlocksToRead
     (demoEquipment\<lparr>readoutRate := 6305039478318694 / 2 ^ 53,
        equipmentStats := \<lparr>nLoop = 0, nThrottle = 0, nBlocksOut = 6, nOutputFull = 0,
                            nBytesOut = 0, nIdle = 0\<rparr>\<rparr>)
     (demoEnv\<lparr>clk0Time := 10\<rparr>) = Some 1
 \<and> int_of_double (6305039478318694 / 2 ^ 53 * 10 - 6) = Some 0"
  by (simp add: maxBlocksToRead_def demoEquipment_def demoEnv_def int_of_double_def
      double_unfold)

text \<open>
  Claim C6, as stated, fails before the first block: with a rate of 1000 Hz, no block
  emitted yet and no time elapsed, the budget is 0 and the rate clock has not reached its
  next tick, yet the iteration records no throttle event. The source asks for
  \<^verbatim>\<open>nBlocksOut != 0\<close> as well.
\<close>

theorem threadCallback_throttle_counterexample:
  "0 < readoutRate (demoEquipment\<lparr>readoutRate := 1000\<rparr>)
 \<and> \<not> clkIsTimeout demoEnv
 \<and> maxBlocksToRead (demoEquipment\<lparr>readoutRate := 1000\<rparr>) demoEnv = Some 0
 \<and> (case threadCallback demoOps demoDecode demoEnv
           (demoEquipment\<lparr>readoutRate := 1000\<rparr>, [demoPageOrbit]) of
      Inl f \<Rightarrow> False
    | Inr (r, emitted, eq', sub') \<Rightarrow>
        emitted = []
      \<and> nThrottle (equipmentStats eq') = nThrottle (equipmentStats demoEquipment)
      \<and> nThrottle (equipmentStats eq') = 0)"
  by (simp add: threadCallback_def maxBlocksToRead_def finishCallback_def Let_def
      demoEquipment_def demoEnv_def int_of_double_def demoOps_def toDouble_0 roundDouble_0)

text \<open>
  Claim C6, amended. In an iteration with \<open>readoutRate > 0\<close> the budget is
  \<open>readoutRate * elapsed - nBlocksOut\<close>, computed in \<^verbatim>\<open>double\<close> (the product, the
  counter and the difference each rounded to the nearest \<^verbatim>\<open>double\<close>) and truncated
  to an integer. When the rate clock has not reached its next tick, at least one block
  has been emitted before (\<open>nBlocksOut \<noteq> 0\<close>) and the budget is at most 0, the
  iteration records one throttle event and yields: it returns Idle, emits no block, asks
  the variant for none, and leaves the block counter and the output FIFO as they were.
\<close>

theorem threadCallback_throttle:
  assumes "0 < readoutRate eq"
    and "toDouble (readoutRate eq * clk0Time env) = Some p"
    and "toDouble (p - roundDouble (real (unat (nBlocksOut (equipmentStats eq))))) = Some d"
    and "int_of_double d = Some m"
    and "\<not> clkIsTimeout env"
    and "nBlocksOut (equipmentStats eq) \<noteq> 0"
    and "m \<le> 0"
  shows "maxBlocksToRead eq env = Some m
       \<and> (case threadCallback ops decode env (eq, sub) of
            Inl f \<Rightarrow> False
          | Inr (r, emitted, eq', sub') \<Rightarrow>
              r = Idle \<and> emitted = [] \<and> sub' = sub
            \<and> nThrottle (equipmentStats eq') = nThrottle (equipmentStats eq) + 1
            \<and> nLoop (equipmentStats eq') = nLoop (equipmentStats eq) + 1
            \<and> nIdle (equipmentStats eq') = nIdle (equipmentStats eq) + 1
            \<and> nBlocksOut (equipmentStats eq') = nBlocksOut (equipmentStats eq)
            \<and> currentBlockId eq' = currentBlockId eq
            \<and> dataOut eq' = dataOut eq)"
  using assms
  by (simp add: threadCallback_def maxBlocksToRead_def finishCallback_def Let_def)

theorem threadCallback_throttle_witness:
  "(case threadCallback demoOps demoDecode (demoEnv\<lparr>clk0Time := 0.5\<rparr>)
          (demoEquipment\<lparr>readoutRate := 1000,
              equipmentStats := \<lparr>nLoop = 0, nThrottle = 0, nBlocksOut = 600, nOutputFull = 0,
                                  nBytesOut = 0, nIdle = 0\<rparr>\<rparr>, [demoPageOrbit]) of
      Inl f \<Rightarrow> False
    | Inr (r, emitted, eq', sub') \<Rightarrow>
        r = Idle \<and> emitted = [] \<and> sub' = [demoPageOrbit]
      \<and> nThrottle (equipmentStats eq') = 1 \<and> dataOut eq' = [])"
  using threadCallback_throttle
    [where eq = "demoEquipment\<lparr>readoutRate := 1000,
              equipmentStats := \<lparr>nLoop = 0, nThrottle = 0, nBlocksOut = 600, nOutputFull = 0,
                                  nBytesOut = 0, nIdle = 0\<rparr>\<rparr>"
       and env = "demoEnv\<lparr>clk0Time := 0.5\<rparr>" and p = 500 and d = "-100" and m = "-100"
       and ops = demoOps and decode = demoDecode and sub = "[demoPageOrbit]"]
  by (simp add: demoEquipment_def demoEnv_def int_of_double_def toDouble_500 roundDouble_600
      toDouble_minus_100 split: sum.splits prod.splits)

section \<open>Properties of the block counter\<close>

lemma getTimeframeFromOrbit_currentBlockId:
  "getTimeframeFromOrbit s hbOrbit = Inr (tfId, s') \<Longrightarrow> currentBlockId s' = currentBlockId s"
  by (auto simp: getTimeframeFromOrbit_def Let_def split: if_splits)

lemma tagDatablockFromRdh_currentBlockId:
  "tagDatablockFromRdh s h bh = Inr (e, bh', s') \<Longrightarrow> currentBlockId s' = currentBlockId s"
  by (auto simp: tagDatablockFromRdh_def Let_def getTimeframeFromOrbit_currentBlockId
      split: if_splits sum.splits prod.splits)

lemma processRdh_currentBlockId:
  assumes "processRdh decode s block = Inr (r, block', s')"
  shows "currentBlockId s' = currentBlockId s"
proof (cases "data block")
  case None
  with assms show ?thesis by (simp add: processRdh_def)
next
  case (Some blockData)
  have loop: "\<And>n h p l i t. currentBlockId (snd (rdhCheckLoop decode blockData n h p l i t))
                = currentBlockId t"
    by (rule rdhCheckLoop_frame) simp_all
  from assms Some show ?thesis
    by (auto simp: processRdh_def loop tagDatablockFromRdh_currentBlockId
        split: if_splits sum.splits prod.splits)
qed

lemma upt_0_Suc_map: "[0..<Suc n] = 0 # map Suc [0..<n]"
  by (simp add: upt_conv_Cons map_Suc_upt del: upt_Suc)

lemma readBlocks_blockIds:
  assumes "readBlocks ops decode env k (nPushedOut, isActive, emitted, eq, sub)
             = Inr (nPushedOut', isActive', emitted', eq', sub')"
  shows "\<exists>new. emitted' = emitted @ new
       \<and> map (\<lambda>b. blockId (header b)) new
           = map (\<lambda>i. currentBlockId eq + 1 + word_of_nat i) [0..<length new]
       \<and> currentBlockId eq' = currentBlockId eq + word_of_nat (length new)"
  using assms
proof (induction k arbitrary: nPushedOut isActive emitted eq sub)
  case 0
  then show ?case by simp
next
  case (Suc k)
  show ?case
  proof (cases "outputFifoSize eq \<le> length (dataOut eq)")
    case True
    with Suc.prems show ?thesis by auto
  next
    case notFull: False
    obtain nb sub1 where g: "getNextBlock ops sub = (nb, sub1)"
      by (cases "getNextBlock ops sub")
    show ?thesis
    proof (cases nb)
      case Thrown
      with Suc.prems notFull g show ?thesis by auto
    next
      case NoBlock
      with Suc.prems notFull g show ?thesis by auto
    next
      case (Block nextBlock)
      obtain r b1 eq1 where p: "(if isRdhEquipment eq then processRdh decode eq nextBlock
                    else Inr (0, nextBlock, eq)) = Inr (r, b1, eq1)"
        using Suc.prems notFull g Block
        by (auto split: sum.splits)
      then have c1: "currentBlockId eq1 = currentBlockId eq"
        by (auto dest: processRdh_currentBlockId split: if_splits)
      define h5 where "h5 = (let h1 = header b1;
                      h2 = (if equipment_id eq1 \<noteq> undefinedEquipmentId
                            then h1\<lparr>equipmentId := equipment_id eq1\<rparr> else h1);
                      h3 = h2\<lparr>blockId := currentBlockId eq1 + 1\<rparr>;
                      h4 = (if timeframeId h3 = undefinedTimeframeId
                            then h3\<lparr>timeframeId := currentTimeframe eq1\<rparr> else h3)
                   in h4\<lparr>runNumber := occRunNumber env\<rparr>)"
      define b5 where "b5 = b1\<lparr>header := h5\<rparr>"
      define eq4 where "eq4 = (let eq2 = eq1\<lparr>currentBlockId := currentBlockId eq1 + 1\<rparr>;
                      eq3 = eq2\<lparr>equipmentStats := (equipmentStats eq2)
                                 \<lparr>nBytesOut := nBytesOut (equipmentStats eq2) + ucast (dataSize h5)\<rparr>,
                               bytesReadout := bytesReadout eq2 + ucast (dataSize h5)\<rparr>
                   in (if \<not> disableOutput eq3
                             then eq3\<lparr>dataOut := dataOut eq3 @ [b5]\<rparr> else eq3))"
      have id5: "blockId (header b5) = currentBlockId eq + 1"
        by (simp add: b5_def h5_def Let_def c1)
      have c4: "currentBlockId eq4 = currentBlockId eq + 1"
        by (simp add: eq4_def Let_def c1)
      have step: "readBlocks ops decode env (Suc k) (nPushedOut, isActive, emitted, eq, sub)
                   = readBlocks ops decode env k (nPushedOut + 1, True, emitted @ [b5], eq4, sub1)"
        using notFull g Block p
        by (simp add: Let_def b5_def h5_def eq4_def)
      with Suc.prems have "readBlocks ops decode env k (nPushedOut + 1, True, emitted @ [b5], eq4, sub1)
              = Inr (nPushedOut', isActive', emitted', eq', sub')"
        by simp
      from Suc.IH [OF this] obtain new where
        n: "emitted' = (emitted @ [b5]) @ new"
           "map (\<lambda>b. blockId (header b)) new
              = map (\<lambda>i. currentBlockId eq4 + 1 + word_of_nat i) [0..<length new]"
           "currentBlockId eq' = currentBlockId eq4 + word_of_nat (length new)"
        by blast
      have "map (\<lambda>b. blockId (header b)) (b5 # new)
              = map (\<lambda>i. currentBlockId eq + 1 + word_of_nat i) [0..<length (b5 # new)]"
        using n(2) id5 c4
        by (simp add: upt_0_Suc_map comp_def add.assoc del: upt_Suc)
      moreover have "currentBlockId eq' = currentBlockId eq + word_of_nat (length (b5 # new))"
        using n(3) c4 by simp
      moreover have "emitted' = emitted @ (b5 # new)"
        using n(1) by simp
      ultimately show ?thesis by blast
    qed
  qed
qed


lemma finishCallback_frame:
  "finishCallback a em eq sub = (r, em', eq', sub') \<Longrightarrow>
     em' = em \<and> currentBlockId eq' = currentBlockId eq"
  by (auto simp: finishCallback_def split: if_splits)

lemma threadCallback_blockIds:
  assumes "threadCallback ops decode env (eq, sub) = Inr (r, new, eq', sub')"
  shows "map (\<lambda>b. blockId (header b)) new
           = map (\<lambda>i. currentBlockId eq + 1 + word_of_nat i) [0..<length new]
       \<and> currentBlockId eq' = currentBlockId eq + word_of_nat (length new)"
proof -
  define eq2 where "eq2 = (let eq1 = (if usingSoftwareClock eq \<and> timeframeClockIsTimeout env
                   then eq\<lparr>currentTimeframe := currentTimeframe eq + 1,
                           statsNumberOfTimeframes := statsNumberOfTimeframes eq + 1\<rparr>
                   else eq)
        in eq1\<lparr>equipmentStats := (equipmentStats eq1)
                       \<lparr>nLoop := nLoop (equipmentStats eq1) + 1\<rparr>\<rparr>)"
  have c2: "currentBlockId eq2 = currentBlockId eq"
    by (simp add: eq2_def Let_def)
  obtain m where m: "maxBlocksToRead eq2 env = Some m"
    using assms by (auto simp: threadCallback_def Let_def eq2_def split: option.splits)
  show ?thesis
  proof (cases "readoutRate eq2 > 0 \<and> \<not> clkIsTimeout env
                   \<and> nBlocksOut (equipmentStats eq2) \<noteq> 0 \<and> m \<le> 0")
    case True
    with assms m have "finishCallback False []
                            (eq2\<lparr>equipmentStats := (equipmentStats eq2)
                                  \<lparr>nThrottle := nThrottle (equipmentStats eq2) + 1\<rparr>\<rparr>) sub
                        = (r, new, eq', sub')"
      by (simp add: threadCallback_def Let_def eq2_def [symmetric, unfolded Let_def])
    from finishCallback_frame [OF this] c2 show ?thesis by simp
  next
    case False
    with assms m obtain nPushedOut isActive emitted eq3 sub3 where
      rb: "readBlocks ops decode env (nat m) (0, False, [], eq2, sub)
             = Inr (nPushedOut, isActive, emitted, eq3, sub3)"
      by (simp add: threadCallback_def Let_def eq2_def [symmetric, unfolded Let_def]
          split: sum.splits) auto
    from readBlocks_blockIds [OF rb] c2 have
      e: "map (\<lambda>b. blockId (header b)) emitted
           = map (\<lambda>i. currentBlockId eq + 1 + word_of_nat i) [0..<length emitted]"
         "currentBlockId eq3 = currentBlockId eq + word_of_nat (length emitted)"
      by auto
    define eq4 where "eq4 = eq3\<lparr>equipmentStats := (equipmentStats eq3)
                                   \<lparr>nBlocksOut := nBlocksOut (equipmentStats eq3)
                                                  + word_of_int nPushedOut\<rparr>\<rparr>"
    have c4: "currentBlockId eq4 = currentBlockId eq3"
      by (simp add: eq4_def)
    have "new = emitted \<and> currentBlockId eq' = currentBlockId eq4"
      using assms m False rb
      by (auto simp: threadCallback_def Let_def eq2_def [symmetric, unfolded Let_def]
          eq4_def [symmetric] split: if_splits prod.splits CallbackResult.splits
          dest: finishCallback_frame)
    with e c4 show ?thesis by simp
  qed
qed


lemma map_upt_add: "map f [0..<n + m] = map f [0..<n] @ map (\<lambda>i. f (n + i)) [0..<m]"
  by (induction m) simp_all

lemma runEquipment_blockIds:
  assumes "runEquipment ops decode evs (emitted, eq, sub) = Inr (emitted', eq', sub')"
    and "map (\<lambda>b. blockId (header b)) emitted = map (\<lambda>i. word_of_nat (Suc i)) [0..<length emitted]"
    and "currentBlockId eq = word_of_nat (length emitted)"
  shows "map (\<lambda>b. blockId (header b)) emitted' = map (\<lambda>i. word_of_nat (Suc i)) [0..<length emitted']
       \<and> currentBlockId eq' = word_of_nat (length emitted')"
  using assms
proof (induction evs arbitrary: emitted eq sub)
  case Nil
  then show ?case by simp
next
  case (Cons ev evs)
  show ?case
  proof (cases ev)
    case (Callback env)
    obtain res where res: "threadCallback ops decode env (eq, sub) = Inr res"
      using Cons.prems(1) Callback by (cases "threadCallback ops decode env (eq, sub)") simp_all
    obtain r new eq1 sub1 where res4: "res = (r, new, eq1, sub1)"
      by (cases res)
    have t: "threadCallback ops decode env (eq, sub) = Inr (r, new, eq1, sub1)"
      using res res4 by simp
    have rest: "runEquipment ops decode evs (emitted @ new, eq1, sub1) = Inr (emitted', eq', sub')"
      using Cons.prems(1) Callback t by simp
    from threadCallback_blockIds [OF t] have
      n1: "map (\<lambda>b. blockId (header b)) new
           = map (\<lambda>i. currentBlockId eq + 1 + word_of_nat i) [0..<length new]"
      and n2: "currentBlockId eq1 = currentBlockId eq + word_of_nat (length new)"
      by simp_all
    have "map (\<lambda>i. (word_of_nat (Suc i) :: u64)) [0..<length emitted + length new]
            = map (\<lambda>i. word_of_nat (Suc i)) [0..<length emitted]
              @ map (\<lambda>i. word_of_nat (Suc (length emitted + i))) [0..<length new]"
      by (rule map_upt_add)
    also have "map (\<lambda>i. (word_of_nat (Suc (length emitted + i)) :: u64)) [0..<length new]
                 = map (\<lambda>i. currentBlockId eq + 1 + word_of_nat i) [0..<length new]"
      by (simp add: Cons.prems(3))
    finally have "map (\<lambda>b. blockId (header b)) (emitted @ new)
            = map (\<lambda>i. word_of_nat (Suc i)) [0..<length (emitted @ new)]"
      using Cons.prems(2) n1 by simp
    moreover have "currentBlockId eq1 = word_of_nat (length (emitted @ new))"
      using n2 Cons.prems(3) by simp
    ultimately show ?thesis
      by (rule Cons.IH [OF rest])
  next
    case GetBlock
    from Cons.prems(1) GetBlock
    have "runEquipment ops decode evs (emitted, eq\<lparr>dataOut := tl (dataOut eq)\<rparr>, sub)
            = Inr (emitted', eq', sub')"
      by simp
    from Cons.IH [OF this Cons.prems(2)] Cons.prems(3) show ?thesis by simp
  next
    case SetDataOn
    from Cons.prems(1) SetDataOn
    have "runEquipment ops decode evs (emitted, eq\<lparr>isDataOn := True\<rparr>, sub)
            = Inr (emitted', eq', sub')"
      by simp
    from Cons.IH [OF this Cons.prems(2)] Cons.prems(3) show ?thesis by simp
  next
    case SetDataOff
    from Cons.prems(1) SetDataOff
    have "runEquipment ops decode evs (emitted, eq\<lparr>isDataOn := False\<rparr>, sub)
            = Inr (emitted', eq', sub')"
      by simp
    from Cons.IH [OF this Cons.prems(2)] Cons.prems(3) show ?thesis by simp
  next
    case (Hardware f)
    from Cons.prems(1) Hardware
    have "runEquipment ops decode evs (emitted, eq, f sub) = Inr (emitted', eq', sub')"
      by simp
    from Cons.IH [OF this Cons.prems(2) Cons.prems(3)] show ?thesis .
  qed
qed

text \<open>
  Claim C7. In every run of an equipment, from \<open>start\<close> through any sequence of loop
  iterations, consumer reads, data on and off switches and hardware activity, the
  pages that went through the tagging of the loop carry, in that order, the block ids
  1, 2, 3, ...: \<open>start\<close> resets the counter to 0 and each page obtained from
  \<^verbatim>\<open>getNextBlock\<close> gets the counter after one increment. The ids are 64-bit; below
  \<open>2 ^ 64\<close> pages their values are the natural numbers from 1 on, strictly increasing.
\<close>

theorem blockId_sequence:
  assumes "runFromStart ops decode evs st = Inr (emitted, eq', sub')"
  shows "map (\<lambda>b. blockId (header b)) emitted = map word_of_nat [1..<Suc (length emitted)]
       \<and> currentBlockId eq' = word_of_nat (length emitted)
       \<and> (length emitted < 2 ^ 64 \<longrightarrow>
            map (\<lambda>b. unat (blockId (header b))) emitted = [1..<Suc (length emitted)])"
proof -
  obtain eq sub where st: "st = (eq, sub)" by (cases st)
  obtain eq0 sub0 where s0: "start ops (eq, sub) = (eq0, sub0)" and c0: "currentBlockId eq0 = 0"
    by (simp add: start_def)
  from assms st s0 have run: "runEquipment ops decode evs ([], eq0, sub0) = Inr (emitted, eq', sub')"
    by (simp add: runFromStart_def)
  from runEquipment_blockIds [OF run] c0 have
    r: "map (\<lambda>b. blockId (header b)) emitted = map (\<lambda>i. word_of_nat (Suc i)) [0..<length emitted]"
       "currentBlockId eq' = word_of_nat (length emitted)"
    by auto
  have ids: "map (\<lambda>b. blockId (header b)) emitted = map word_of_nat [1..<Suc (length emitted)]"
    using r(1) by (simp add: map_Suc_upt [symmetric] comp_def del: upt_Suc)
  have nat_ids: "map (\<lambda>b. unat (blockId (header b))) emitted = [1..<Suc (length emitted)]"
    if small: "length emitted < 2 ^ 64"
  proof -
    have "map (\<lambda>b. unat (blockId (header b))) emitted
            = map unat (map (\<lambda>b. blockId (header b)) emitted)"
      by (simp add: comp_def)
    also have "\<dots> = map (\<lambda>i. unat (word_of_nat i :: u64)) [1..<Suc (length emitted)]"
      by (simp only: ids map_map comp_def)
    also have "\<dots> = map (\<lambda>i. i) [1..<Suc (length emitted)]"
    proof (rule map_cong [OF refl])
      fix i assume "i \<in> set [1..<Suc (length emitted)]"
      then have "i \<le> length emitted" by (simp del: upt_Suc)
      then have "i < 2 ^ 64" using small by (rule le_less_trans)
      then show "unat (word_of_nat i :: u64) = i"
        by (simp add: unat_of_nat)
    qed
    finally show ?thesis by simp
  qed
  from ids r(2) nat_ids show ?thesis by blast
qed

text \<open>
  The run does not fault when no rate limit is set and, in RDH mode, the timeframe
  period is not zero.
\<close>

lemma getTimeframeFromOrbit_total:
  assumes "timeframePeriodOrbits s \<noteq> 0"
  shows "\<exists>tfId s'. getTimeframeFromOrbit s hbOrbit = Inr (tfId, s') \<and> cfg3 s' = cfg3 s"
  using assms by (simp add: getTimeframeFromOrbit_def Let_def cfg3_def)

lemma tagDatablockFromRdh_total:
  assumes "timeframePeriodOrbits s \<noteq> 0"
  shows "\<exists>e bh' s'. tagDatablockFromRdh s h bh = Inr (e, bh', s') \<and> cfg3 s' = cfg3 s"
proof (cases "rdh_valid h")
  case False
  then show ?thesis
    by (auto simp: tagDatablockFromRdh_def split: prod.splits)
next
  case True
  from getTimeframeFromOrbit_total [OF assms, of "rdh_hbOrbit h"]
  obtain tfId s1 where "getTimeframeFromOrbit s (rdh_hbOrbit h) = Inr (tfId, s1)" "cfg3 s1 = cfg3 s"
    by blast
  with True show ?thesis
    by (auto simp: tagDatablockFromRdh_def Let_def split: prod.splits)
qed

lemma processRdh_total:
  assumes "timeframePeriodOrbits s \<noteq> 0"
  shows "\<exists>r block' s'. processRdh decode s block = Inr (r, block', s') \<and> cfg3 s' = cfg3 s"
proof (cases "data block")
  case None
  then show ?thesis by (simp add: processRdh_def)
next
  case (Some blockData)
  have loop: "\<And>n h p l i t. cfg3 (snd (rdhCheckLoop decode blockData n h p l i t)) = cfg3 t"
    by (rule rdhCheckLoop_frame) (simp_all add: cfg3_def)
  show ?thesis
  proof (cases "cfgRdhUseFirstInPageEnabled s \<or> cfgRdhCheckEnabled s")
    case True
    from tagDatablockFromRdh_total [OF assms, of "decode blockData 0" "header block"]
    obtain e bh' s1 where t: "tagDatablockFromRdh s (decode blockData 0) (header block) = Inr (e, bh', s1)"
      "cfg3 s1 = cfg3 s"
      by blast
    with Some True show ?thesis
      by (simp add: processRdh_def loop)
  next
    case False
    with Some show ?thesis
      by (simp add: processRdh_def loop)
  qed
qed

lemma readBlocks_total:
  assumes "isRdhEquipment eq \<longrightarrow> timeframePeriodOrbits eq \<noteq> 0"
  shows "\<exists>n' a' em' eq' sub'. readBlocks ops decode env k (n, a, em, eq, sub)
             = Inr (n', a', em', eq', sub') \<and> cfg3 eq' = cfg3 eq"
  using assms
proof (induction k arbitrary: n a em eq sub)
  case 0
  then show ?case by simp
next
  case (Suc k)
  show ?case
  proof (cases "outputFifoSize eq \<le> length (dataOut eq)")
    case True
    then show ?thesis by (simp add: cfg3_def)
  next
    case notFull: False
    obtain nb sub1 where g: "getNextBlock ops sub = (nb, sub1)"
      by (cases "getNextBlock ops sub")
    show ?thesis
    proof (cases nb)
      case Thrown
      with notFull g show ?thesis by simp
    next
      case NoBlock
      with notFull g show ?thesis by simp
    next
      case (Block nextBlock)
      have "\<exists>r b1 eq1. (if isRdhEquipment eq then processRdh decode eq nextBlock
                    else Inr (0, nextBlock, eq)) = Inr (r, b1, eq1) \<and> cfg3 eq1 = cfg3 eq"
        using Suc.prems processRdh_total [of eq decode nextBlock] by auto
      then obtain r b1 eq1 where p: "(if isRdhEquipment eq then processRdh decode eq nextBlock
                    else Inr (0, nextBlock, eq)) = Inr (r, b1, eq1)" and c1: "cfg3 eq1 = cfg3 eq"
        by blast
      define h5 where "h5 = (let h1 = header b1;
                      h2 = (if equipment_id eq1 \<noteq> undefinedEquipmentId
                            then h1\<lparr>equipmentId := equipment_id eq1\<rparr> else h1);
                      h3 = h2\<lparr>blockId := currentBlockId eq1 + 1\<rparr>;
                      h4 = (if timeframeId h3 = undefinedTimeframeId
                            then h3\<lparr>timeframeId := currentTimeframe eq1\<rparr> else h3)
                   in h4\<lparr>runNumber := occRunNumber env\<rparr>)"
      define b5 where "b5 = b1\<lparr>header := h5\<rparr>"
      define eq4 where "eq4 = (let eq2 = eq1\<lparr>currentBlockId := currentBlockId eq1 + 1\<rparr>;
                      eq3 = eq2\<lparr>equipmentStats := (equipmentStats eq2)
                                 \<lparr>nBytesOut := nBytesOut (equipmentStats eq2) + ucast (dataSize h5)\<rparr>,
                               bytesReadout := bytesReadout eq2 + ucast (dataSize h5)\<rparr>
                   in (if \<not> disableOutput eq3
                             then eq3\<lparr>dataOut := dataOut eq3 @ [b5]\<rparr> else eq3))"
      have c4: "cfg3 eq4 = cfg3 eq"
        using c1 by (simp add: eq4_def Let_def cfg3_def)
      have step: "readBlocks ops decode env (Suc k) (n, a, em, eq, sub)
                   = readBlocks ops decode env k (n + 1, True, em @ [b5], eq4, sub1)"
        using notFull g Block p
        by (simp add: Let_def b5_def h5_def eq4_def)
      have "isRdhEquipment eq4 \<longrightarrow> timeframePeriodOrbits eq4 \<noteq> 0"
        using c4 Suc.prems by (simp add: cfg3_def)
      from Suc.IH [OF this, of "n + 1" True "em @ [b5]" sub1] step c4 show ?thesis
        by auto
    qed
  qed
qed

lemma finishCallback_cfg3:
  "\<exists>r em' eq' sub'. finishCallback a em eq sub = (r, em', eq', sub') \<and> cfg3 eq' = cfg3 eq"
  by (simp add: finishCallback_def cfg3_def)

lemma threadCallback_total:
  assumes "readoutRate eq \<le> 0" and "isRdhEquipment eq \<longrightarrow> timeframePeriodOrbits eq \<noteq> 0"
  shows "\<exists>r new eq' sub'. threadCallback ops decode env (eq, sub) = Inr (r, new, eq', sub')
           \<and> cfg3 eq' = cfg3 eq"
proof -
  define eq2 where "eq2 = (let eq1 = (if usingSoftwareClock eq \<and> timeframeClockIsTimeout env
                   then eq\<lparr>currentTimeframe := currentTimeframe eq + 1,
                           statsNumberOfTimeframes := statsNumberOfTimeframes eq + 1\<rparr>
                   else eq)
        in eq1\<lparr>equipmentStats := (equipmentStats eq1)
                       \<lparr>nLoop := nLoop (equipmentStats eq1) + 1\<rparr>\<rparr>)"
  have c2: "cfg3 eq2 = cfg3 eq"
    by (simp add: eq2_def Let_def cfg3_def)
  then have r2: "\<not> readoutRate eq2 > 0" and p2: "isRdhEquipment eq2 \<longrightarrow> timeframePeriodOrbits eq2 \<noteq> 0"
    using assms by (simp_all add: cfg3_def)
  have m: "maxBlocksToRead eq2 env = Some 1024"
    using r2 by (simp add: maxBlocksToRead_def)
  from readBlocks_total [OF p2, of ops decode env "nat 1024" 0 False "[]" sub]
  obtain nPushedOut isActive emitted eq3 sub3 where
    rb: "readBlocks ops decode env (nat 1024) (0, False, [], eq2, sub)
           = Inr (nPushedOut, isActive, emitted, eq3, sub3)" and c3: "cfg3 eq3 = cfg3 eq2"
    by blast
  define eq4 where "eq4 = eq3\<lparr>equipmentStats := (equipmentStats eq3)
                                   \<lparr>nBlocksOut := nBlocksOut (equipmentStats eq3)
                                                  + word_of_int nPushedOut\<rparr>\<rparr>"
  have c4: "cfg3 eq4 = cfg3 eq"
    using c3 c2 by (simp add: eq4_def cfg3_def)
  have c3': "readoutRate eq3 = readoutRate eq" "isRdhEquipment eq3 = isRdhEquipment eq"
    "timeframePeriodOrbits eq3 = timeframePeriodOrbits eq"
    using c3 c2 by (simp_all add: cfg3_def)
  show ?thesis
    using m r2 rb c3'
    by (auto simp: threadCallback_def Let_def eq2_def [symmetric, unfolded Let_def]
        finishCallback_def cfg3_def split: prod.splits CallbackResult.splits
        simp del: readBlocks.simps)
qed

lemma runEquipment_total:
  assumes "readoutRate eq \<le> 0" and "isRdhEquipment eq \<longrightarrow> timeframePeriodOrbits eq \<noteq> 0"
  shows "\<exists>res. runEquipment ops decode evs (emitted, eq, sub) = Inr res"
  using assms
proof (induction evs arbitrary: emitted eq sub)
  case Nil
  then show ?case by simp
next
  case (Cons ev evs)
  show ?case
  proof (cases ev)
    case (Callback env)
    from threadCallback_total [OF Cons.prems, of ops decode env sub]
    obtain r new eq1 sub1 where t: "threadCallback ops decode env (eq, sub) = Inr (r, new, eq1, sub1)"
      and c: "cfg3 eq1 = cfg3 eq"
      by blast
    from c Cons.prems have "readoutRate eq1 \<le> 0" "isRdhEquipment eq1 \<longrightarrow> timeframePeriodOrbits eq1 \<noteq> 0"
      by (simp_all add: cfg3_def)
    from Cons.IH [OF this, of "emitted @ new" sub1] Callback t show ?thesis
      by simp
  next
    case GetBlock
    from Cons.IH [of "eq\<lparr>dataOut := tl (dataOut eq)\<rparr>" emitted sub] Cons.prems GetBlock
    show ?thesis by simp
  next
    case SetDataOn
    from Cons.IH [of "eq\<lparr>isDataOn := True\<rparr>" emitted sub] Cons.prems SetDataOn
    show ?thesis by simp
  next
    case SetDataOff
    from Cons.IH [of "eq\<lparr>isDataOn := False\<rparr>" emitted sub] Cons.prems SetDataOff
    show ?thesis by simp
  next
    case (Hardware f)
    from Cons.IH [of eq emitted "f sub"] Cons.prems Hardware
    show ?thesis by simp
  qed
qed

lemma runFromStart_total:
  assumes "readoutRate eq \<le> 0" and "isRdhEquipment eq \<longrightarrow> timeframePeriodOrbits eq \<noteq> 0"
  shows "\<exists>res. runFromStart ops decode evs (eq, sub) = Inr res"
proof -
  obtain eq0 sub0 where s0: "start ops (eq, sub) = (eq0, sub0)"
    and "readoutRate eq0 = readoutRate eq" "isRdhEquipment eq0 = isRdhEquipment eq"
      "timeframePeriodOrbits eq0 = timeframePeriodOrbits eq"
    by (simp add: start_def)
  with assms runEquipment_total [of eq0 ops decode evs "[]" sub0] show ?thesis
    by (simp add: runFromStart_def)
qed

lemma demo_run_length:
  "runFromStart demoOps demoDecode [Callback demoEnv, GetBlock, Callback demoEnv]
         (demoEquipment, [demoPageOrbit, demoPageInvalid, demoPageOrbit]) \<noteq> Inl DivisionByZero
 \<and> runFromStart demoOps demoDecode [Callback demoEnv, GetBlock, Callback demoEnv]
         (demoEquipment, [demoPageOrbit, demoPageInvalid, demoPageOrbit]) \<noteq> Inl UndefinedConversion
 \<and> length (fst (projr (runFromStart demoOps demoDecode [Callback demoEnv, GetBlock, Callback demoEnv]
         (demoEquipment, [demoPageOrbit, demoPageInvalid, demoPageOrbit])))) = 3"
  by code_simp

theorem blockId_sequence_witness:
  "(case runFromStart demoOps demoDecode [Callback demoEnv, GetBlock, Callback demoEnv]
         (demoEquipment, [demoPageOrbit, demoPageInvalid, demoPageOrbit]) of
      Inl f \<Rightarrow> False
    | Inr (emitted, eq', sub') \<Rightarrow>
        map (\<lambda>b. blockId (header b)) emitted = [1, 2, 3]
      \<and> map (\<lambda>b. unat (blockId (header b))) emitted = [1, 2, 3]
      \<and> currentBlockId eq' = 3)"
proof -
  from runFromStart_total [where eq = demoEquipment and ops = demoOps and decode = demoDecode
          and evs = "[Callback demoEnv, GetBlock, Callback demoEnv]"
          and sub = "[demoPageOrbit, demoPageInvalid, demoPageOrbit]"]
  obtain emitted eq' sub' where
    r: "runFromStart demoOps demoDecode [Callback demoEnv, GetBlock, Callback demoEnv]
         (demoEquipment, [demoPageOrbit, demoPageInvalid, demoPageOrbit]) = Inr (emitted, eq', sub')"
    by (auto simp: demoEquipment_def configureTFperiod_def)
  have l: "length emitted = 3"
    using demo_run_length r by simp
  have u: "[1..<Suc 3] = [1, 2, 3]"
    by (simp add: upt_conv_Cons)
  from blockId_sequence [OF r] l u show ?thesis
    using r by simp
qed

section \<open>Properties of the repacking of heartbeat frames\<close>

lemma totalSizeOf_fits:
  assumes "sum_list (map HBlength fs) < 2 ^ 31"
  shows "totalSizeOf fs = int (sum_list (map HBlength fs))"
proof -
  have "int (sum_list (map HBlength fs)) < 2 ^ 31"
    using assms by (simp add: of_nat_less_numeral_power_cancel_iff)
  moreover have "- (2 ^ 31) \<le> int (sum_list (map HBlength fs))"
    by (rule order_trans [of _ 0]) simp_all
  ultimately have "signed_take_bit 31 (int (sum_list (map HBlength fs)))
                     = int (sum_list (map HBlength fs))"
    by (intro signed_take_bit_int_eq_self)
  then show ?thesis
    by (simp add: totalSizeOf_def signed_of_nat)
qed







text \<open>
  The collection does return without throwing when every fragment lies inside its
  page, the sum of the lengths is within the page size of the pool, and the current
  copy buffer has room for it or is absent with a free page that has.
\<close>

lemma repackFrames_succeeds:
  assumes "\<forall>f \<in> set fs. \<exists>d. pageData ps (blockRef f) = Some d \<and> HBstart f + HBlength f \<le> length d"
    and "ix + sum_list (map HBlength fs) \<le> length nb"
  shows "\<exists>r. repackFrames ps fs (nb, ix, copied) = Inr r"
  using assms
proof (induction fs arbitrary: nb ix copied)
  case Nil
  then show ?case by simp
next
  case (Cons f fs)
  from Cons.prems(1) obtain d where
    d: "pageData ps (blockRef f) = Some d" "HBstart f + HBlength f \<le> length d"
    by auto
  define nb1 where "nb1 = take ix nb @ take (HBlength f) (drop (HBstart f) d)
                            @ drop (ix + HBlength f) nb"
  have m: "memcpy_at nb ix (pageData ps (blockRef f)) (HBstart f) (HBlength f) = Inr nb1"
    using d Cons.prems(2) by (simp add: memcpy_at_def nb1_def)
  have "length nb1 = length nb"
    using d(2) Cons.prems(2) by (simp add: nb1_def)
  with Cons.prems have "\<exists>r. repackFrames ps fs (nb1, ix + HBlength f, copied + word_of_nat (HBlength f)) = Inr r"
    by (intro Cons.IH) (simp_all add: add.assoc)
  with m show ?case by simp
qed

lemma allocCopyBlock_fresh_page:
  assumes "enablePackedCopy c" and "mp c = page # rest" and "n \<le> length page"
  shows "allocCopyBlock n (None, c)
           = (Some (page, n), Some (take n page), True, int (length page),
              c\<lparr>mp := rest, nPagesUsedForRepack := nPagesUsedForRepack c + 1\<rparr>)"
  using assms
  by (simp add: allocCopyBlock_def numeral_3_eq_3 getNewDataBlockContainer_def getChildBlock_def)

lemma allocCopyBlock_child:
  assumes "enablePackedCopy c" and "used + n \<le> length buffer"
  shows "allocCopyBlock n (Some (buffer, used), c)
           = (Some (buffer, used + n), Some (take n (drop used buffer)), False, 0, c)"
  using assms
  by (simp add: allocCopyBlock_def numeral_3_eq_3 getChildBlock_def)

lemma collectRepack_succeeds:
  assumes "\<forall>f \<in> set (pendingFrames st).
             \<exists>d. pageData (pages st) (blockRef f) = Some d \<and> HBstart f + HBlength f \<le> length d"
    and "sum_list (map HBlength (pendingFrames st)) < 2 ^ 31"
    and "int (sum_list (map HBlength (pendingFrames st))) \<le> memoryPoolPageSize (cons st)"
    and "enablePackedCopy (cons st)"
    and "(\<exists>buffer used. copyBlockBuffer st = Some (buffer, used)
            \<and> used + sum_list (map HBlength (pendingFrames st)) \<le> length buffer)
       \<or> (\<exists>page rest. copyBlockBuffer st = None \<and> mp (cons st) = page # rest
            \<and> sum_list (map HBlength (pendingFrames st)) \<le> length page)"
  shows "\<exists>st'. collectRepack now st = Inr (False, st')"
proof -
  let ?n = "sum_list (map HBlength (pendingFrames st))"
  have ts: "totalSizeOf (pendingFrames st) = int ?n"
    using assms(2) by (rule totalSizeOf_fits)
  define c1 where "c1 = (cons st)\<lparr>gReadoutStats := (gReadoutStats (cons st))
                   \<lparr>ddHBFRepacked := ddHBFRepacked (gReadoutStats (cons st)) + 1\<rparr>\<rparr>"
  have c1p: "enablePackedCopy c1" "mp c1 = mp (cons st)"
       "memoryPoolPageSize c1 = memoryPoolPageSize (cons st)"
    using assms(4) by (simp_all add: c1_def)
  have "\<exists>cbb newBlock isNew memSize c2.
          allocCopyBlock ?n (copyBlockBuffer st, c1) = (cbb, Some newBlock, isNew, memSize, c2)
        \<and> ?n \<le> length newBlock"
    using assms(5)
  proof (elim disjE exE conjE)
    fix buffer used
    assume "copyBlockBuffer st = Some (buffer, used)" "used + ?n \<le> length buffer"
    then show ?thesis
      using allocCopyBlock_child [OF c1p(1), of used ?n buffer] by auto
  next
    fix page rest
    assume "copyBlockBuffer st = None" "mp (cons st) = page # rest" "?n \<le> length page"
    then show ?thesis
      using allocCopyBlock_fresh_page [OF c1p(1), of page rest ?n] c1p(2) by auto
  qed
  then obtain cbb newBlock isNew memSize c2 where
    al: "allocCopyBlock ?n (copyBlockBuffer st, c1) = (cbb, Some newBlock, isNew, memSize, c2)"
    and ln: "?n \<le> length newBlock"
    by blast
  from repackFrames_succeeds [OF assms(1), of 0 newBlock "ddBytesCopied (gReadoutStats c2)"] ln
  obtain r where "repackFrames (pages st) (pendingFrames st)
                    (newBlock, 0, ddBytesCopied (gReadoutStats c2)) = Inr r"
    by auto
  then show ?thesis
    using assms(3) c1p(3) al
    by (cases r) (simp add: collectRepack_def Let_def ts c1_def [symmetric])
qed




text \<open>Boundary scenario 2 of the specification, scaled down, through the whole formatting.\<close>

lemma DDformatMessage_two_pages:
  "(case DDformatMessage demoLayout 5
           [demoContainer 1 False demoBytesA, demoContainer 1 True demoBytesB] demoConsumer of
      Inl e \<Rightarrow> False
    | Inr (r, m, ps, c) \<Rightarrow>
        r = 0 \<and> length (messagesToSend m) = 2
      \<and> messagesToSend m ! 1 = DataMessage 20 (demoBytesA @ demoBytesB))"
  by code_simp

section \<open>Properties of the dispatch to the formatting threads\<close>




section \<open>Properties of the STF header\<close>

lemma extendsDDMessage_refl: "extendsDDMessage m m"
  by (simp add: extendsDDMessage_def)

lemma extendsDDMessage_trans:
  assumes "extendsDDMessage a b" "extendsDDMessage b c"
  shows "extendsDDMessage a c"
proof -
  from assms(1) have ab: "take (length (messagesToSend a)) (messagesToSend b) = messagesToSend a"
    by (simp add: extendsDDMessage_def)
  then have le: "length (messagesToSend a) \<le> length (messagesToSend b)"
  proof -
    have "length (messagesToSend a)
            = length (take (length (messagesToSend a)) (messagesToSend b))"
      by (simp only: ab)
    then show ?thesis by simp
  qed
  from assms(2) have bc: "take (length (messagesToSend b)) (messagesToSend c) = messagesToSend b"
    by (simp add: extendsDDMessage_def)
  have "take (length (messagesToSend a)) (messagesToSend c)
          = take (length (messagesToSend a)) (take (length (messagesToSend b)) (messagesToSend c))"
    using le by (simp add: min_def)
  also have "\<dots> = messagesToSend a"
    by (simp only: bc ab)
  finally show ?thesis
    using assms by (simp add: extendsDDMessage_def)
qed

lemma extendsDDMessage_addMessage: "extendsDDMessage m (addMessage msg l m)"
  by (simp add: extendsDDMessage_def addMessage_def)

lemma extendsDDMessage_memorySize:
  "extendsDDMessage m (m\<lparr>subTimeframeMemorySize := x\<rparr>)"
  by (simp add: extendsDDMessage_def)

lemma collectSingle_extends: "extendsDDMessage (ddm st) (ddm (collectSingle now f st))"
  by (simp add: collectSingle_def Let_def extendsDDMessage_addMessage split: prod.splits)

lemma collectRepack_extends:
  assumes "collectRepack now st = Inr (thrown, st')"
  shows "extendsDDMessage (ddm st) (ddm st')"
proof -
  have a: "\<And>msg l x. extendsDDMessage (ddm st)
                (addMessage msg l ((ddm st)\<lparr>subTimeframeMemorySize := x\<rparr>))"
    by (rule extendsDDMessage_trans [OF extendsDDMessage_memorySize extendsDDMessage_addMessage])
  from assms show ?thesis
    by (auto simp: collectRepack_def Let_def extendsDDMessage_refl extendsDDMessage_addMessage a
        split: if_splits prod.splits option.splits sum.splits)
qed

lemma pendingFramesCollect_extends:
  assumes "pendingFramesCollect now st = Inr (thrown, st')"
  shows "extendsDDMessage (ddm st) (ddm st')"
proof (cases "pendingFrames st")
  case Nil
  with assms show ?thesis
    by (simp add: pendingFramesCollect_def extendsDDMessage_refl)
next
  case (Cons f rest)
  show ?thesis
  proof (cases rest)
    case Nil
    with assms Cons have "st' = collectSingle now f st"
      by (simp add: pendingFramesCollect_def)
    then show ?thesis
      by (simp add: collectSingle_extends)
  next
    case (Cons g fs)
    with assms \<open>pendingFrames st = f # rest\<close> have "collectRepack now st = Inr (thrown, st')"
      by (simp add: pendingFramesCollect_def)
    then show ?thesis
      by (rule collectRepack_extends)
  qed
qed

lemma pendingFramesAppend_ddm: "ddm (pendingFramesAppend ix l hbid br st) = ddm st"
  by (simp add: pendingFramesAppend_def)

lemma hbfStep_extends:
  assumes "hbfStep layout now br blockData offset (hbStart, lastHBid, s)
             = Inr (thrown, hbStart', lastHBid', s')"
  shows "extendsDDMessage (ddm s) (ddm s')"
proof (cases "rdh_hbOrbit (rawDataHeaderAt layout blockData offset) \<noteq> lastHBid")
  case False
  with assms show ?thesis
    by (simp add: hbfStep_def extendsDDMessage_refl)
next
  case True
  define s1 where "s1 = (if offset - hbStart \<noteq> 0
                         then pendingFramesAppend hbStart (offset - hbStart) lastHBid br s else s)"
  have d: "ddm s1 = ddm s"
    by (simp add: s1_def pendingFramesAppend_ddm)
  have step: "hbfStep layout now br blockData offset (hbStart, lastHBid, s)
        = (case pendingFramesCollect now s1 of
                 Inl e \<Rightarrow> Inl e
               | Inr (thrown, s2) \<Rightarrow>
                   if thrown then Inr (True, hbStart, lastHBid, s2)
                   else Inr (False, offset,
                             rdh_hbOrbit (rawDataHeaderAt layout blockData offset), s2))"
    using True by (simp add: hbfStep_def Let_def s1_def)
  show ?thesis
  proof (cases "pendingFramesCollect now s1")
    case (Inl e)
    with assms step show ?thesis by simp
  next
    case (Inr r)
    obtain t s2 where r: "r = (t, s2)" by (cases r)
    with Inr assms step have "s' = s2"
      by (cases t) simp_all
    with Inr r pendingFramesCollect_extends [of now s1 t s2] d show ?thesis
      by simp
  qed
qed

lemma hbfWalk_extends:
  assumes "hbfWalk layout now br blockData blockSize offset (hbStart, lastHBid, s)
             = Inr (thrown, hbStart', lastHBid', s')"
  shows "extendsDDMessage (ddm s) (ddm s')"
  using assms
proof (induction layout now br blockData blockSize offset "(hbStart, lastHBid, s)"
       arbitrary: hbStart lastHBid s rule: hbfWalk.induct)
  case (1 layout now br blockData blockSize offset)
  show ?case
  proof (cases "offset + sizeof_RAWDataHeader layout \<le> blockSize")
    case False
    with "1.prems" show ?thesis
      by (subst (asm) hbfWalk.simps) (simp add: extendsDDMessage_refl)
  next
    case inside: True
    from "1.prems" inside obtain t st1 where
      st: "hbfStep layout now br blockData offset (hbStart, lastHBid, s) = Inr (t, st1)"
      by (subst (asm) hbfWalk.simps) (auto split: sum.splits)
    obtain hb1 last1 s1 where st1: "st1 = (hb1, last1, s1)"
      by (cases st1)
    from hbfStep_extends [OF st [unfolded st1]] have e1: "extendsDDMessage (ddm s) (ddm s1)" .
    show ?thesis
    proof (cases "t \<or> rdh_offsetNextPacket (rawDataHeaderAt layout blockData offset) = 0")
      case True
      with "1.prems" inside st st1 have "s' = s1"
        by (subst (asm) hbfWalk.simps) (auto split: if_splits)
      with e1 show ?thesis by simp
    next
      case False
      with "1.prems" inside st st1 have
        "hbfWalk layout now br blockData blockSize
           (offset + unat (rdh_offsetNextPacket (rawDataHeaderAt layout blockData offset)))
           (hb1, last1, s1) = Inr (thrown, hbStart', lastHBid', s')"
        by (subst (asm) hbfWalk.simps) simp
      with "1.hyps" [of "(t, st1)" t hb1 last1 s1] inside False st st1
      have "extendsDDMessage (ddm s1) (ddm s')"
        by simp
      with e1 show ?thesis
        by (rule extendsDDMessage_trans)
    qed
  qed
qed


lemma secondPassBlock_extends:
  assumes "secondPassBlock layout now br (lastHBid, s) = Inr (thrown, lastHBid', s')"
  shows "extendsDDMessage (ddm s) (ddm s')"
proof -
  from assms have inr: "br < length (pages s)"
    by (auto simp: secondPassBlock_def split: if_splits)
  define cont where "cont = pages s ! br"
  define blockSize where "blockSize = unat (dataSize (header (getData cont)))"
  define s1 where "s1 = s\<lparr>pages := updatePage br (\<lambda>b. initBlockStats b (getDataBufferSize cont)) (pages s)\<rparr>"
  have d1: "ddm s1 = ddm s"
    by (simp add: s1_def)
  define w where "w = (case data (getData cont) of
                      None \<Rightarrow> if sizeof_RAWDataHeader layout \<le> blockSize then Inl NullPointer
                              else Inr (False, 0, lastHBid, s1)
                    | Some blockData \<Rightarrow>
                        hbfWalk layout now br blockData blockSize 0 (0, lastHBid, s1))"
  have sp: "secondPassBlock layout now br (lastHBid, s)
        = (case w of
                Inl e \<Rightarrow> Inl e
              | Inr (thrown, hbStart, lastHBid1, s2) \<Rightarrow>
                  if thrown then Inr (True, lastHBid1, s2)
                  else if hbStart < blockSize
                    then Inr (False, lastHBid1,
                              pendingFramesAppend hbStart (blockSize - hbStart) lastHBid1 br s2)
                  else Inr (False, lastHBid1, s2))"
    unfolding secondPassBlock_def Let_def cont_def blockSize_def s1_def w_def
    using inr by simp
  show ?thesis
  proof (cases w)
    case (Inl e)
    with assms sp show ?thesis by simp
  next
    case (Inr r)
    obtain t hb l1 s2 where r: "r = (t, hb, l1, s2)" by (cases r)
    have e: "extendsDDMessage (ddm s1) (ddm s2)"
    proof (cases "data (getData cont)")
      case None
      with Inr r show ?thesis
        by (auto simp: w_def extendsDDMessage_refl split: if_splits)
    next
      case (Some blockData)
      with Inr r have "hbfWalk layout now br blockData blockSize 0 (0, lastHBid, s1)
                         = Inr (t, hb, l1, s2)"
        by (simp add: w_def)
      then show ?thesis by (rule hbfWalk_extends)
    qed
    have "ddm s' = ddm s2"
      using assms sp Inr r by (auto simp: pendingFramesAppend_ddm split: if_splits)
    with e d1 show ?thesis by simp
  qed
qed

lemma secondPass_extends:
  assumes "secondPass layout now brs (lastHBid, s) = Inr (thrown, lastHBid', s')"
  shows "extendsDDMessage (ddm s) (ddm s')"
  using assms
proof (induction brs arbitrary: lastHBid s)
  case Nil
  then show ?case by (simp add: extendsDDMessage_refl)
next
  case (Cons br rest)
  from Cons.prems obtain t l1 s1 where
    b: "secondPassBlock layout now br (lastHBid, s) = Inr (t, l1, s1)"
    by (auto split: sum.splits)
  from secondPassBlock_extends [OF b] have e1: "extendsDDMessage (ddm s) (ddm s1)" .
  show ?case
  proof (cases t)
    case True
    with Cons.prems b have "s' = s1" by simp
    with e1 show ?thesis by simp
  next
    case False
    with Cons.prems b have "secondPass layout now rest (l1, s1) = Inr (thrown, lastHBid', s')"
      by simp
    from Cons.IH [OF this] e1 show ?thesis
      by (rule extendsDDMessage_trans [rotated])
  qed
qed

text \<open>What the first pass leaves in the STF header.\<close>

lemma firstPass_stfHeader:
  assumes "firstPass layout bc (lastTimeframeId, isFirst, cbb, stf, m)
             = Inr (lastTimeframeId', isFirst', cbb', stf', m')"
  shows "stf' = (if isFirst \<and> bc \<noteq> []
                 then (fillStfHeader (header (getData (hd bc))) stf)
                        \<lparr>stf_isRdhFormat := isRdhFormat (header (getData (hd bc)))\<rparr>
                 else stf)
                \<lparr>lastTFMessage := (if \<exists>br \<in> set bc. flagEndOfTimeframe (header (getData br))
                                    then 1 else lastTFMessage stf)\<rparr>"
  using assms
proof (induction bc arbitrary: lastTimeframeId isFirst cbb stf m)
  case Nil
  then show ?case by simp
next
  case (Cons br rest)
  let ?h = "header (getData br)"
  define stf2 where "stf2 = (let stf1 = (if flagEndOfTimeframe ?h then stf\<lparr>lastTFMessage := 1\<rparr> else stf)
       in if isFirst then (fillStfHeader ?h stf1)\<lparr>stf_isRdhFormat := isRdhFormat ?h\<rparr> else stf1)"
  from Cons.prems obtain l2 c2 m2 where
    "firstPass layout rest (l2, False, c2, stf2, m2)
       = Inr (lastTimeframeId', isFirst', cbb', stf', m')"
    by (auto simp: Let_def stf2_def split: if_splits)
  from Cons.IH [OF this] have
    "stf' = stf2\<lparr>lastTFMessage := (if \<exists>br \<in> set rest. flagEndOfTimeframe (header (getData br))
                                    then 1 else lastTFMessage stf2)\<rparr>"
    by simp
  then show ?case
    by (auto simp: stf2_def Let_def fillStfHeader_def)
qed

lemma firstPass_messages:
  assumes "firstPass layout bc (lastTimeframeId, isFirst, cbb, stf, m)
             = Inr (lastTimeframeId', isFirst', cbb', stf', m')"
  shows "messagesToSend m' = messagesToSend m"
  using assms
proof (induction bc arbitrary: lastTimeframeId isFirst cbb stf m)
  case Nil
  then show ?case by simp
next
  case (Cons br rest)
  let ?h = "header (getData br)"
  define m1 where "m1 = m\<lparr>subTimeframeMemorySize := subTimeframeMemorySize m + getDataBufferSize br,
                 subTimeframeDataSize := subTimeframeDataSize m + ucast (dataSize ?h)\<rparr>"
  from Cons.prems obtain l2 c2 stf2 where
    "firstPass layout rest (l2, False, c2, stf2, m1)
       = Inr (lastTimeframeId', isFirst', cbb', stf', m')"
    by (auto simp: Let_def m1_def split: if_splits)
  from Cons.IH [OF this] show ?case
    by (simp add: m1_def)
qed

text \<open>
  The STF/HBF format: whenever \<open>DDformatMessage\<close> succeeds on a data set that is not
  empty, the first part of the message is the STF header, its fields are those of the
  first data block, and \<open>lastTFMessage\<close> is 1 exactly when some block of the data set
  has the end-of-timeframe flag.
\<close>

lemma DDformatMessage_stfHeader:
  assumes "DDformatMessage layout now bc c = Inr (0, m, ps, c')" and "bc \<noteq> []"
  shows "take 1 (messagesToSend m) = [StfMessage (stfHeader m)]
       \<and> stfHeader m
           = (fillStfHeader (header (getData (hd bc))) stfhDefaults)
               \<lparr>stf_isRdhFormat := isRdhFormat (header (getData (hd bc))),
                lastTFMessage := (if \<exists>br \<in> set bc. flagEndOfTimeframe (header (getData br))
                                  then 1 else 0)\<rparr>"
proof -
  from assms(1) have big: "\<not> memoryPoolPageSize c < int (sizeof_SubTimeframe layout)"
    by (auto simp: DDformatMessage_def split: if_splits)
  from assms(1) big obtain headerBlock c1 where
    g: "getNewDataBlockContainer c = (Some headerBlock, c1)"
    by (cases "getNewDataBlockContainer c")
       (auto simp: DDformatMessage_def split: option.splits)
  define m0 where "m0 = emptyDDMessage
                        \<lparr>subTimeframeMemorySize := word_of_nat (length headerBlock),
                         subTimeframeDataSize := 0,
                         subTimeframeTotalSize := word_of_nat (sizeof_SubTimeframe layout)\<rparr>"
  from assms(1) big g obtain lt isf cbb stf m1 where
    fp: "firstPass layout bc (undefinedTimeframeId, True, None, stfhDefaults, m0)
           = Inr (lt, isf, cbb, stf, m1)"
    by (cases "firstPass layout bc (undefinedTimeframeId, True, None, stfhDefaults, m0)")
       (auto simp: DDformatMessage_def m0_def [symmetric])
  from firstPass_stfHeader [OF fp] assms(2) have stf:
    "stf = (fillStfHeader (header (getData (hd bc))) stfhDefaults)
               \<lparr>stf_isRdhFormat := isRdhFormat (header (getData (hd bc))),
                lastTFMessage := (if \<exists>br \<in> set bc. flagEndOfTimeframe (header (getData br))
                                  then 1 else 0)\<rparr>"
    by (simp add: stfhDefaults_def)
  define m3 where "m3 = addMessage (StfMessage stf) (sizeof_SubTimeframe layout)
                          (m1\<lparr>stfHeader := stf,
                                 subTimeframeTotalSize :=
                                   subTimeframeTotalSize m1 + subTimeframeDataSize m1,
                                 subTimeframeFMQSize := 0\<rparr>)"
  define c2 where "c2 = (if memoryBuffer c1
                               then c1\<lparr>gReadoutStats :=
                                        accountNewBlock now (word_of_nat (length headerBlock))
                                          (word_of_nat (sizeof_SubTimeframe layout))
                                          (gReadoutStats c1)\<rparr>
                               else c1)"
  define s0 where "s0 = \<lparr>pages = bc, copyBlockBuffer = cbb, pendingFrames = [],
                               ddm = m3, cons = c2\<rparr>"
  define res where "res = (case secondPass layout now [0..<length bc] (-1, s0) of
                                 Inl e \<Rightarrow> Inl e
                               | Inr (thrown, lastHBid, s1) \<Rightarrow>
                                   if thrown then Inr (True, s1)
                                   else pendingFramesCollect now s1)"
  have dd: "DDformatMessage layout now bc c
      = (case res of
                           Inl e \<Rightarrow> Inl e
                         | Inr (thrown, s2) \<Rightarrow>
                             if thrown
                             then Inr (-1, (ddm s2)\<lparr>messagesToSend := []\<rparr>, pages s2,
                                       pushError (cons s2))
                             else Inr (0, ddm s2, pages s2, cons s2))"
    using big g fp
    by (simp add: DDformatMessage_def Let_def m0_def [symmetric] m3_def c2_def s0_def res_def)
  from assms(1) dd obtain s2 where r: "res = Inr (False, s2)" and m: "m = ddm s2"
    by (auto split: sum.splits if_splits)
  have e: "extendsDDMessage m3 (ddm s2)"
  proof (cases "secondPass layout now [0..<length bc] (-1, s0)")
    case (Inl e)
    with r show ?thesis by (simp add: res_def)
  next
    case (Inr x)
    obtain t l s1 where x: "x = (t, l, s1)" by (cases x)
    from secondPass_extends [OF Inr [unfolded x]] have e1: "extendsDDMessage m3 (ddm s1)"
      by (simp add: s0_def)
    show ?thesis
    proof (cases t)
      case True
      with r Inr x show ?thesis by (simp add: res_def)
    next
      case False
      with r Inr x have "pendingFramesCollect now s1 = Inr (False, s2)"
        by (simp add: res_def)
      from e1 pendingFramesCollect_extends [OF this] show ?thesis
        by (rule extendsDDMessage_trans)
    qed
  qed
  have "messagesToSend m1 = []"
    using firstPass_messages [OF fp] by (simp add: m0_def emptyDDMessage_def)
  then have "stfHeader m3 = stf" "messagesToSend m3 = [StfMessage stf]"
    by (simp_all add: m3_def addMessage_def)
  with e m stf show ?thesis
    by (simp add: extendsDDMessage_def)
qed

text \<open>
  The StfSuperpage format: the fields of the STF header are those of the first data
  block, and \<open>lastTFMessage\<close> is 1 exactly when the last block of the data set has the
  end-of-timeframe flag.
\<close>

lemma pushStfSuperpage_stfHeader:
  assumes "pushStfSuperpage bc c = Inr (0, c')" and "bc \<noteq> []" and "channelUp c"
  shows "sent c' = sent c
           @ [StfMessage ((fillStfHeader (header (getData (hd bc))) stfhDefaults)
                \<lparr>lastTFMessage := (if flagEndOfTimeframe (header (getData (last bc)))
                                    then 1 else 0)\<rparr>)
              # map pagePart bc]"
proof -
  obtain first others where bc: "bc = first # others"
    using assms(2) by (cases bc) simp_all
  from assms(1) obtain headerBlock c1 where
    g: "getNewDataBlockContainer c = (Some headerBlock, c1)"
    by (cases "getNewDataBlockContainer c")
       (auto simp: pushStfSuperpage_def pushError_def split: option.splits)
  then have c1: "channelUp c1" "sent c1 = sent c"
    using assms(3) by (auto simp: getNewDataBlockContainer_def split: list.splits)
  from assms(1) g c1 show ?thesis
    by (auto simp: pushStfSuperpage_def bc Let_def Send_def fillStfHeader_def stfhDefaults_def)
qed

text \<open>
  Claim C2 on the code: in the StfSuperpage format (\<open>enableRawFormat = 2\<close>), a data
  set whose first block has the end-of-timeframe flag and whose last block has not
  is sent with \<open>lastTFMessage = 0\<close>; the other fields of the STF header are those of
  the first block. The STF/HBF format sends the same data set with
  \<open>lastTFMessage = 1\<close>.
\<close>

theorem pushData_StfSuperpage_lastTFMessage:
  "flagEndOfTimeframe (header (getData (demoContainer 1 True demoBytesA)))
 \<and> (case pushData demoLayout 5
           [demoContainer 1 True demoBytesA, demoContainer 1 False demoBytesB]
           (demoConsumer\<lparr>enableStfSuperpage := True\<rparr>) of
      Inl e \<Rightarrow> False
    | Inr (r, c) \<Rightarrow>
        r = 0
      \<and> sent c = [[StfMessage ((fillStfHeader (header (getData (demoContainer 1 True demoBytesA)))
                                  stfhDefaults)\<lparr>lastTFMessage := 0\<rparr>),
                     DataMessage 12 demoBytesA, DataMessage 8 demoBytesB]])
 \<and> (case pushData demoLayout 5
           [demoContainer 1 True demoBytesA, demoContainer 1 False demoBytesB] demoConsumer of
      Inl e \<Rightarrow> False
    | Inr (r, c) \<Rightarrow>
        r = 0
      \<and> sent c = [[StfMessage ((fillStfHeader (header (getData (demoContainer 1 True demoBytesA)))
                                  stfhDefaults)\<lparr>stf_isRdhFormat := True, lastTFMessage := 1\<rparr>),
                     DataMessage 20 (demoBytesA @ demoBytesB)]])"
  by code_simp

section \<open>Properties of the egress order\<close>

text \<open>
  Claim C3 on the code: two formatting threads, data sets of the timeframes 1, 2 and
  3 pushed in this order. The data set of timeframe 1 holds a heartbeat frame that
  spans two pages of 24 bytes, more than the 32 bytes of a page of the pool, so that
  its formatting fails and the thread 0 pushes nothing for it. The sender thread, which
  waits on thread 0 first, gets from it timeframe 3, then timeframe 2 from thread 1:
  the timeframe ids reach the transport in the order 3, 2.
\<close>

theorem runConsumer_egress_order:
  "pushedTimeframeIds
     [PushData [demoContainer 1 False demoBytesLong, demoContainer 1 False demoBytesLong],
      PushData [demoContainer 2 False demoBytesA],
      PushData [demoContainer 3 True demoBytesA],
      WorkerIteration 0, WorkerIteration 1, WorkerIteration 0,
      SenderIteration, SenderIteration] = [1, 1, 2, 3]
 \<and> (case runConsumer demoLayout 5
           [PushData [demoContainer 1 False demoBytesLong, demoContainer 1 False demoBytesLong],
            PushData [demoContainer 2 False demoBytesA],
            PushData [demoContainer 3 True demoBytesA],
            WorkerIteration 0, WorkerIteration 1, WorkerIteration 0,
            SenderIteration, SenderIteration] demoThreadedConsumer of
      Inl e \<Rightarrow> False
    | Inr c \<Rightarrow>
        sentTimeframeIds (sent c) = [3, 2]
      \<and> map (\<lambda>w. (length (input_fifo w), length (output_fifo w))) (wThreads c) = [(0, 0), (0, 0)])"
  by code_simp

end
